theory Spec2Isabelle
  imports Main "HOL-Library.Sublist"
begin

section \<open>Python values, exceptions and the outside world\<close>

text \<open>
  The server (\<^verbatim>\<open>src/server.py\<close>) is a set of request/response adapters over JSON
  documents. A Python value that comes out of \<^verbatim>\<open>response.json()\<close> or out of the
  transcript library is a \<open>json\<close> value: \<open>JObj\<close> is a \<^verbatim>\<open>dict\<close> with string keys, kept as
  an association list in insertion order (keys distinct, looked up with \<open>map_of\<close>),
  \<open>JArr\<close> a \<^verbatim>\<open>list\<close>, \<open>JFloat m e\<close> the float \<open>m * 10^e\<close>. A Python \<^verbatim>\<open>str\<close> is a
  \<open>string\<close>, one \<open>char\<close> per code point (code points below 256).
\<close>

datatype json =
    JNull
  | JBool bool
  | JInt int
  | JFloat int int
  | JStr string
  | JArr "json list"
  | JObj "(string \<times> json) list"

text \<open>
  One entry of a pydantic validation error: a validator raised \<^verbatim>\<open>ValueError(msg)\<close>, a
  \<^verbatim>\<open>ge\<close> or \<^verbatim>\<open>le\<close> bound of a \<^verbatim>\<open>Field\<close> was violated, or a \<^verbatim>\<open>str\<close> field was given a
  value that is not a string.
\<close>

datatype field_error =
    Value_error string
  | Greater_than_equal int
  | Less_than_equal int
  | String_type

text \<open>
  Exceptions are values. \<open>ValueError m\<close>, \<open>TypeError m\<close>, \<open>IndexError m\<close>,
  \<open>AttributeError m\<close> carry their message; \<open>KeyError r\<close> carries the \<^verbatim>\<open>repr\<close> of the
  missing key, which is what \<^verbatim>\<open>str\<close> of a \<^verbatim>\<open>KeyError\<close> gives; \<open>ValidationError model errs\<close>
  is pydantic's error for the model class \<open>model\<close> with one entry per failing field;
  \<open>LibraryError m\<close> is any exception raised inside a collaborator (the HTTP client, the
  JSON decoder, the transcript library), with its message.
\<close>

datatype exn =
    ValueError string
  | KeyError string
  | TypeError string
  | IndexError string
  | AttributeError string
  | ValidationError string "(string \<times> field_error) list"
  | LibraryError string

text \<open>
  What \<^verbatim>\<open>await client.get(url, params=params)\<close> gives back: the fields of the
  \<^verbatim>\<open>httpx.Response\<close> that the server reads. \<open>json\<close> is the outcome of calling
  \<^verbatim>\<open>response.json()\<close>, which raises when the body is not a JSON document.
\<close>

record response =
  status_code :: int
  "text" :: string
  json :: "exn + json"

text \<open>
  Everything the module takes from outside its own code, as parameters:
  the process environment read by \<^verbatim>\<open>os.getenv\<close>, the HTTP client, the
  transcript library's \<^verbatim>\<open>YouTubeTranscriptApi.get_transcript\<close> (an \<open>Inl\<close> also stands
  for a failing \<^verbatim>\<open>import\<close> of the library), and the text pydantic prints for a
  validation error.
\<close>

record world =
  environ :: "string \<rightharpoonup> string"
  client_get :: "string \<Rightarrow> (string \<times> json) list \<Rightarrow> exn + response"
  get_transcript :: "string \<Rightarrow> exn + json"
  validation_str :: "string \<Rightarrow> (string \<times> field_error) list \<Rightarrow> string"

text \<open>The calls that leave the process, in the order they are issued.\<close>

datatype net_call =
    HttpGet string "(string \<times> json) list"
  | TranscriptFetch string

fun str_exn :: "world \<Rightarrow> exn \<Rightarrow> string" where
  "str_exn w (ValueError m) = m"
| "str_exn w (KeyError r) = r"
| "str_exn w (TypeError m) = m"
| "str_exn w (IndexError m) = m"
| "str_exn w (AttributeError m) = m"
| "str_exn w (ValidationError model errs) = validation_str w model errs"
| "str_exn w (LibraryError m) = m"

text \<open>Sequencing of computations that may raise: the first exception wins.\<close>

definition and_then :: "exn + 'a \<Rightarrow> ('a \<Rightarrow> exn + 'b) \<Rightarrow> exn + 'b" where
  "and_then r f = (case r of Inl e \<Rightarrow> Inl e | Inr x \<Rightarrow> f x)"

fun map_exn :: "('a \<Rightarrow> exn + 'b) \<Rightarrow> 'a list \<Rightarrow> exn + 'b list" where
  "map_exn f [] = Inr []"
| "map_exn f (x # xs) =
     (case f x of
        Inl e \<Rightarrow> Inl e
      | Inr y \<Rightarrow> (case map_exn f xs of Inl e \<Rightarrow> Inl e | Inr ys \<Rightarrow> Inr (y # ys)))"

subsection \<open>Strings\<close>

text \<open>\<^verbatim>\<open>str(n)\<close> of an integer, as an f-string interpolates it.\<close>

fun str_nat :: "nat \<Rightarrow> string" where
  "str_nat n =
     (if n < 10 then [''0123456789'' ! n]
      else str_nat (n div 10) @ [''0123456789'' ! (n mod 10)])"

declare str_nat.simps [simp del]

definition str_int :: "int \<Rightarrow> string" where
  "str_int i = (if i < 0 then ''-'' @ str_nat (nat (- i)) else str_nat (nat i))"

text \<open>\<^verbatim>\<open>sep.join(parts)\<close> on strings.\<close>

fun str_join :: "string \<Rightarrow> string list \<Rightarrow> string" where
  "str_join sep [] = []"
| "str_join sep [x] = x"
| "str_join sep (x # y # ys) = x @ sep @ str_join sep (y # ys)"

text \<open>
  \<^verbatim>\<open>str.isspace\<close> on one character: the white space of Python among the code points
  below 256 (tab to carriage return, the four separators 28 to 31, space, NEL, no-break
  space). \<^verbatim>\<open>str.strip()\<close> removes such characters at both ends.
\<close>

definition py_isspace :: "char \<Rightarrow> bool" where
  "py_isspace c = ((of_char c :: nat) \<in> {9, 10, 11, 12, 13, 28, 29, 30, 31, 32, 133, 160})"

definition py_strip :: "string \<Rightarrow> string" where
  "py_strip s = rev (dropWhile py_isspace (rev (dropWhile py_isspace s)))"

text \<open>\<^verbatim>\<open>repr\<close> of a string key made of plain characters, as a \<^verbatim>\<open>KeyError\<close> shows it.\<close>

definition py_repr_key :: "string \<Rightarrow> string" where
  "py_repr_key k = [CHR 0x27] @ k @ [CHR 0x27]"

subsection \<open>Operations on Python values\<close>

fun py_type_name :: "json \<Rightarrow> string" where
  "py_type_name JNull = ''NoneType''"
| "py_type_name (JBool b) = ''bool''"
| "py_type_name (JInt i) = ''int''"
| "py_type_name (JFloat m e) = ''float''"
| "py_type_name (JStr s) = ''str''"
| "py_type_name (JArr xs) = ''list''"
| "py_type_name (JObj kvs) = ''dict''"

text \<open>Truth value of an object, as \<^verbatim>\<open>not x\<close> tests it.\<close>

fun py_truthy :: "json \<Rightarrow> bool" where
  "py_truthy JNull = False"
| "py_truthy (JBool b) = b"
| "py_truthy (JInt i) = (i \<noteq> 0)"
| "py_truthy (JFloat m e) = (m \<noteq> 0)"
| "py_truthy (JStr s) = (s \<noteq> [])"
| "py_truthy (JArr xs) = (xs \<noteq> [])"
| "py_truthy (JObj kvs) = (kvs \<noteq> [])"

text \<open>\<^verbatim>\<open>x[k]\<close> with a string literal \<open>k\<close> (messages as CPython 3.12 words them).\<close>

fun getitem_str :: "json \<Rightarrow> string \<Rightarrow> exn + json" where
  "getitem_str (JObj kvs) k =
     (case map_of kvs k of Some v \<Rightarrow> Inr v | None \<Rightarrow> Inl (KeyError (py_repr_key k)))"
| "getitem_str (JArr xs) k = Inl (TypeError ''list indices must be integers or slices, not str'')"
| "getitem_str (JStr s) k = Inl (TypeError (''string indices must be integers, not '' @ py_repr_key ''str''))"
| "getitem_str x k =
     Inl (TypeError (py_repr_key (py_type_name x) @ '' object is not subscriptable''))"

text \<open>
  \<^verbatim>\<open>x[i]\<close> with an integer \<open>i\<close>. On a sequence of \<open>n\<close> items the positions
  \<open>0 .. n - 1\<close> are read as they are and \<open>- n .. - 1\<close> from the end; any other
  index raises \<^verbatim>\<open>IndexError\<close>. A dict from JSON has no integer key.
\<close>

definition py_index :: "nat \<Rightarrow> int \<Rightarrow> nat option" where
  "py_index n i =
     (if 0 \<le> i \<and> i < int n then Some (nat i)
      else if i < 0 \<and> - int n \<le> i then Some (nat (int n + i))
      else None)"

fun getitem_int :: "json \<Rightarrow> int \<Rightarrow> exn + json" where
  "getitem_int (JArr xs) i =
     (case py_index (length xs) i of
        Some j \<Rightarrow> Inr (xs ! j)
      | None \<Rightarrow> Inl (IndexError ''list index out of range''))"
| "getitem_int (JStr s) i =
     (case py_index (length s) i of
        Some j \<Rightarrow> Inr (JStr [s ! j])
      | None \<Rightarrow> Inl (IndexError ''string index out of range''))"
| "getitem_int (JObj kvs) i = Inl (KeyError (str_int i))"
| "getitem_int x i =
     Inl (TypeError (py_repr_key (py_type_name x) @ '' object is not subscriptable''))"

text \<open>\<^verbatim>\<open>x.get(k, default)\<close>: only a \<^verbatim>\<open>dict\<close> has the method.\<close>

fun dict_get :: "json \<Rightarrow> string \<Rightarrow> json \<Rightarrow> exn + json" where
  "dict_get (JObj kvs) k d = Inr (case map_of kvs k of Some v \<Rightarrow> v | None \<Rightarrow> d)"
| "dict_get x k d =
     Inl (AttributeError (py_repr_key (py_type_name x) @ '' object has no attribute ''
            @ py_repr_key ''get''))"

text \<open>
  The items a \<^verbatim>\<open>for\<close> loop or a comprehension sees: the elements of a list, the keys of
  a dict, the characters of a string; other values are not iterable.
\<close>

fun py_iter :: "json \<Rightarrow> exn + json list" where
  "py_iter (JArr xs) = Inr xs"
| "py_iter (JObj kvs) = Inr (map (\<lambda>kv. JStr (fst kv)) kvs)"
| "py_iter (JStr s) = Inr (map (\<lambda>c. JStr [c]) s)"
| "py_iter x = Inl (TypeError (py_repr_key (py_type_name x) @ '' object is not iterable''))"

text \<open>
  \<^verbatim>\<open>sep.join(items)\<close> on a list of objects: the first item that is not a \<^verbatim>\<open>str\<close> raises
  \<^verbatim>\<open>TypeError\<close>, naming its position and type.
\<close>

fun join_strs :: "nat \<Rightarrow> json list \<Rightarrow> exn + string list" where
  "join_strs i [] = Inr []"
| "join_strs i (JStr s # xs) =
     (case join_strs (Suc i) xs of Inl e \<Rightarrow> Inl e | Inr ss \<Rightarrow> Inr (s # ss))"
| "join_strs i (x # xs) =
     Inl (TypeError (''sequence item '' @ str_nat i @ '': expected str instance, ''
            @ py_type_name x @ '' found''))"

definition py_join :: "string \<Rightarrow> json list \<Rightarrow> exn + string" where
  "py_join sep items = and_then (join_strs 0 items) (\<lambda>ss. Inr (str_join sep ss))"

text \<open>\<^verbatim>\<open>d[k] = v\<close> on a dict: an existing key keeps its place, a new one goes last.\<close>

fun dict_set :: "(string \<times> json) list \<Rightarrow> string \<Rightarrow> json \<Rightarrow> (string \<times> json) list" where
  "dict_set [] k v = [(k, v)]"
| "dict_set ((k', v') # kvs) k v =
     (if k' = k then (k, v) # kvs else (k', v') # dict_set kvs k v)"

section \<open>Configuration (class Config, lines 36 to 56)\<close>

text \<open>\<^verbatim>\<open>YOUTUBE_API_KEY = os.getenv("YOUTUBE_API_KEY")\<close>, read once when the module loads.\<close>

definition YOUTUBE_API_KEY :: "world \<Rightarrow> string option" where
  "YOUTUBE_API_KEY w = environ w ''YOUTUBE_API_KEY''"

text \<open>
  \<^verbatim>\<open>Config.validate\<close>: the messages of all unset variables are collected in \<open>errors\<close>,
  then reported in one \<^verbatim>\<open>ValueError\<close>. \<^verbatim>\<open>not cls.YOUTUBE_API_KEY\<close> holds for an absent
  variable and for an empty one.
\<close>

definition Config_errors :: "world \<Rightarrow> string list" where
  "Config_errors w =
     (if YOUTUBE_API_KEY w = None \<or> YOUTUBE_API_KEY w = Some []
      then [''YOUTUBE_API_KEY is required''] else [])"

definition Config_error_msg :: "string list \<Rightarrow> string" where
  "Config_error_msg errors =
     ''Missing required environment variables:\<newline>''
     @ str_join ''\<newline>'' (map (\<lambda>e. ''  - '' @ e) errors)
     @ ''\<newline>\<newline>See module docstring for configuration details.''"

definition Config_validate :: "world \<Rightarrow> exn + unit" where
  "Config_validate w =
     (let errors = Config_errors w
      in if errors \<noteq> [] then Inl (ValueError (Config_error_msg errors)) else Inr ())"

text \<open>
  Loading the module: \<^verbatim>\<open>Config.validate()\<close> runs at line 56, before the server object is
  created and before any tool is registered. The result of a successful load is the list
  of tools the server offers.
\<close>

definition load_module :: "world \<Rightarrow> exn + string list" where
  "load_module w =
     and_then (Config_validate w)
       (\<lambda>_. Inr [''get_youtube_transcript'', ''youtube_search_videos'',
                 ''youtube_get_video_details'', ''youtube_get_comments'',
                 ''youtube_list_channel_videos''])"

section \<open>Request and response models (lines 67 to 151)\<close>

text \<open>
  The request and response classes are pydantic models. Constructing one validates its
  fields in declaration order and collects the failures of all fields into one
  \<open>ValidationError\<close>; a \<^verbatim>\<open>ValueError\<close> raised by a field validator becomes the entry
  \<open>Value_error\<close> of its field.
\<close>

record TranscriptRequest =
  video_id :: string

record TranscriptResponse =
  transcript :: string
  video_title :: "string option"
  video_description :: "string option"

record SearchRequest =
  query :: string
  max_results :: int

record SearchResponse =
  videos :: "(string \<times> json) list list"

record VideoDetailsRequest =
  video_id :: string

record VideoDetailsResponse =
  video_id :: string
  title :: string
  description :: string
  published_at :: string

record CommentsRequest =
  video_id :: string
  max_results :: int

record CommentsResponse =
  comments :: "string list"

text \<open>
  \<^verbatim>\<open>validate_video_id\<close>, written out three times in the source with the same body
  (\<^verbatim>\<open>TranscriptRequest\<close>, \<^verbatim>\<open>VideoDetailsRequest\<close>, \<^verbatim>\<open>CommentsRequest\<close>).
\<close>

definition validate_video_id :: "string \<Rightarrow> exn + string" where
  "validate_video_id v =
     (if v = [] \<or> length v \<noteq> 11
      then Inl (ValueError ''video_id must be exactly 11 characters'') else Inr v)"

definition validate_query :: "string \<Rightarrow> exn + string" where
  "validate_query v =
     (if v = [] \<or> py_strip v = []
      then Inl (ValueError ''query cannot be empty'') else Inr (py_strip v))"

text \<open>The error entries of one field: from its validator, from its \<^verbatim>\<open>ge\<close>/\<^verbatim>\<open>le\<close> bounds.\<close>

fun value_errors :: "string \<Rightarrow> exn + 'a \<Rightarrow> (string \<times> field_error) list" where
  "value_errors field (Inl (ValueError m)) = [(field, Value_error m)]"
| "value_errors field r = []"

definition bound_errors :: "string \<Rightarrow> int \<Rightarrow> int \<Rightarrow> int \<Rightarrow> (string \<times> field_error) list" where
  "bound_errors field lo hi n =
     (if n < lo then [(field, Greater_than_equal lo)]
      else if hi < n then [(field, Less_than_equal hi)] else [])"

definition TranscriptRequest_init :: "string \<Rightarrow> exn + TranscriptRequest" where
  "TranscriptRequest_init v =
     (let errs = value_errors ''video_id'' (validate_video_id v)
      in case (errs, validate_video_id v) of
           ([], Inr v') \<Rightarrow> Inr \<lparr>TranscriptRequest.video_id = v'\<rparr>
         | _ \<Rightarrow> Inl (ValidationError ''TranscriptRequest'' errs))"

definition VideoDetailsRequest_init :: "string \<Rightarrow> exn + VideoDetailsRequest" where
  "VideoDetailsRequest_init v =
     (let errs = value_errors ''video_id'' (validate_video_id v)
      in case (errs, validate_video_id v) of
           ([], Inr v') \<Rightarrow> Inr \<lparr>VideoDetailsRequest.video_id = v'\<rparr>
         | _ \<Rightarrow> Inl (ValidationError ''VideoDetailsRequest'' errs))"

text \<open>\<^verbatim>\<open>max_results\<close> may be left out of the call: \<open>None\<close> takes the field's default.\<close>

definition SearchRequest_init :: "string \<Rightarrow> int option \<Rightarrow> exn + SearchRequest" where
  "SearchRequest_init q m =
     (let n = (case m of None \<Rightarrow> 5 | Some n \<Rightarrow> n);
          errs = value_errors ''query'' (validate_query q) @ bound_errors ''max_results'' 1 50 n
      in case (errs, validate_query q) of
           ([], Inr q') \<Rightarrow> Inr \<lparr>query = q', SearchRequest.max_results = n\<rparr>
         | _ \<Rightarrow> Inl (ValidationError ''SearchRequest'' errs))"

definition CommentsRequest_init :: "string \<Rightarrow> int option \<Rightarrow> exn + CommentsRequest" where
  "CommentsRequest_init v m =
     (let n = (case m of None \<Rightarrow> 20 | Some n \<Rightarrow> n);
          errs = value_errors ''video_id'' (validate_video_id v)
                 @ bound_errors ''max_results'' 1 100 n
      in case (errs, validate_video_id v) of
           ([], Inr v') \<Rightarrow> Inr \<lparr>CommentsRequest.video_id = v', CommentsRequest.max_results = n\<rparr>
         | _ \<Rightarrow> Inl (ValidationError ''CommentsRequest'' errs))"

text \<open>
  Response fields typed \<^verbatim>\<open>str\<close> accept a string only, fields typed \<^verbatim>\<open>Optional[str]\<close> a
  string or \<^verbatim>\<open>None\<close>; \<^verbatim>\<open>List[Dict[str, Any]]\<close> accepts every list the tools build.
\<close>

fun as_str :: "json \<Rightarrow> string option" where
  "as_str (JStr s) = Some s"
| "as_str x = None"

fun as_optional_str :: "json \<Rightarrow> string option option" where
  "as_optional_str JNull = Some None"
| "as_optional_str (JStr s) = Some (Some s)"
| "as_optional_str x = None"

definition str_errors :: "string \<Rightarrow> json \<Rightarrow> (string \<times> field_error) list" where
  "str_errors field x = (case as_str x of Some s \<Rightarrow> [] | None \<Rightarrow> [(field, String_type)])"

definition optional_str_errors :: "string \<Rightarrow> json \<Rightarrow> (string \<times> field_error) list" where
  "optional_str_errors field x =
     (case as_optional_str x of Some s \<Rightarrow> [] | None \<Rightarrow> [(field, String_type)])"

fun list_str_errors :: "string \<Rightarrow> nat \<Rightarrow> json list \<Rightarrow> (string \<times> field_error) list" where
  "list_str_errors field i [] = []"
| "list_str_errors field i (x # xs) =
     str_errors (field @ ''.'' @ str_nat i) x @ list_str_errors field (Suc i) xs"

definition TranscriptResponse_init :: "string \<Rightarrow> json \<Rightarrow> json \<Rightarrow> exn + TranscriptResponse" where
  "TranscriptResponse_init tr t d =
     (case (as_optional_str t, as_optional_str d) of
        (Some t', Some d') \<Rightarrow>
          Inr \<lparr>transcript = tr, video_title = t', video_description = d'\<rparr>
      | _ \<Rightarrow> Inl (ValidationError ''TranscriptResponse''
                 (optional_str_errors ''video_title'' t
                  @ optional_str_errors ''video_description'' d)))"

definition SearchResponse_init :: "(string \<times> json) list list \<Rightarrow> exn + SearchResponse" where
  "SearchResponse_init vs = Inr \<lparr>videos = vs\<rparr>"

definition VideoDetailsResponse_init ::
  "string \<Rightarrow> json \<Rightarrow> json \<Rightarrow> json \<Rightarrow> exn + VideoDetailsResponse" where
  "VideoDetailsResponse_init v t d p =
     (case (as_str t, as_str d, as_str p) of
        (Some t', Some d', Some p') \<Rightarrow>
          Inr \<lparr>VideoDetailsResponse.video_id = v, title = t', description = d',
               published_at = p'\<rparr>
      | _ \<Rightarrow> Inl (ValidationError ''VideoDetailsResponse''
                 (str_errors ''title'' t @ str_errors ''description'' d
                  @ str_errors ''published_at'' p)))"

definition CommentsResponse_init :: "json list \<Rightarrow> exn + CommentsResponse" where
  "CommentsResponse_init cs =
     (case those (map as_str cs) of
        Some ss \<Rightarrow> Inr \<lparr>comments = ss\<rparr>
      | None \<Rightarrow> Inl (ValidationError ''CommentsResponse'' (list_str_errors ''comments'' 0 cs)))"

section \<open>Transport helper and error wrapping (lines 154 to 166)\<close>

text \<open>
  \<^verbatim>\<open>_make_api_request\<close> (the leading underscore is dropped): the credential is stored in
  \<open>params\<close> under \<^verbatim>\<open>key\<close>, one GET is issued, and the outcome is the decoded body on
  status 200 and a \<^verbatim>\<open>ValueError\<close> otherwise. The second component is what was sent.
\<close>

definition make_api_request ::
  "world \<Rightarrow> string \<Rightarrow> (string \<times> json) list \<Rightarrow> (exn + json) \<times> net_call list" where
  "make_api_request w url params =
     (let params' = dict_set params ''key''
                      (case YOUTUBE_API_KEY w of None \<Rightarrow> JNull | Some k \<Rightarrow> JStr k)
      in (and_then (client_get w url params')
            (\<lambda>response.
               if status_code response \<noteq> 200
               then Inl (ValueError (''API request failed: '' @ str_int (status_code response)
                                     @ '' - '' @ text response))
               else json response),
          [HttpGet url params']))"

definition handle_api_error :: "world \<Rightarrow> exn \<Rightarrow> string" where
  "handle_api_error w e = ''API Error: '' @ str_exn w e"

text \<open>\<^verbatim>\<open>except Exception as e: raise ValueError(_handle_api_error(e))\<close>\<close>

definition reraise :: "world \<Rightarrow> exn + 'a \<Rightarrow> exn + 'a" where
  "reraise w r = (case r of Inl e \<Rightarrow> Inl (ValueError (handle_api_error w e)) | Inr x \<Rightarrow> Inr x)"

section \<open>The tools (lines 173 to 324)\<close>

text \<open>
  A tool returns its outcome together with the calls it sent out. For each
  \<^verbatim>\<open>try\<close> block the definition \<open>..._try\<close> is the block's body and the tool applies
  \<open>reraise\<close> to it, as the \<^verbatim>\<open>except\<close> clause does. The source's local variables
  \<^verbatim>\<open>video_id\<close>, \<^verbatim>\<open>title\<close>, \<^verbatim>\<open>description\<close>, \<^verbatim>\<open>transcript\<close>, \<^verbatim>\<open>videos\<close>, \<^verbatim>\<open>comments\<close> are
  written \<open>vid\<close> or \<open>v\<close>, \<open>t\<close>, \<open>d\<close>, \<open>tr\<close>, \<open>vs\<close>, \<open>cs\<close>: the long names are the fields
  of the records.
\<close>

subsection \<open>Transcript tool (lines 173 to 212)\<close>

text \<open>First block: fetch the fragments and join their \<^verbatim>\<open>text\<close> values with one space.\<close>

definition transcript_try :: "world \<Rightarrow> string \<Rightarrow> (exn + string) \<times> net_call list" where
  "transcript_try w vid =
     (and_then (get_transcript w vid)
        (\<lambda>transcript_list. and_then (py_iter transcript_list)
        (\<lambda>items. and_then (map_exn (\<lambda>item. getitem_str item ''text'') items)
        (\<lambda>texts. py_join '' '' texts))),
      [TranscriptFetch vid])"

text \<open>Second block: fetch the video's snippet and read title and description.\<close>

definition metadata_try :: "world \<Rightarrow> string \<Rightarrow> (exn + json \<times> json) \<times> net_call list" where
  "metadata_try w vid =
     (let url = ''https://www.googleapis.com/youtube/v3/videos'';
          params = [(''id'', JStr vid), (''part'', JStr ''snippet'')]
      in case make_api_request w url params of
           (r, calls) \<Rightarrow>
             (and_then r
                (\<lambda>data. and_then (getitem_str data ''items'')
                (\<lambda>items. if \<not> py_truthy items then Inl (ValueError ''Video not found'')
                   else and_then (getitem_str data ''items'')
                (\<lambda>items. and_then (getitem_int items 0)
                (\<lambda>first. and_then (getitem_str first ''snippet'')
                (\<lambda>snippet. and_then (getitem_str snippet ''title'')
                (\<lambda>t. and_then (getitem_str snippet ''description'')
                (\<lambda>d. Inr (t, d)))))))),
              calls))"

definition get_youtube_transcript ::
  "world \<Rightarrow> TranscriptRequest \<Rightarrow> (exn + TranscriptResponse) \<times> net_call list" where
  "get_youtube_transcript w request =
     (let vid = TranscriptRequest.video_id request
      in case transcript_try w vid of
           (r1, calls1) \<Rightarrow>
             (case reraise w r1 of
                Inl e \<Rightarrow> (Inl e, calls1)
              | Inr tr \<Rightarrow>
                  (case metadata_try w vid of
                     (r2, calls2) \<Rightarrow>
                       (case reraise w r2 of
                          Inl e \<Rightarrow> (Inl e, calls1 @ calls2)
                        | Inr (t, d) \<Rightarrow>
                            (TranscriptResponse_init tr t d,
                             calls1 @ calls2)))))"

subsection \<open>Search tool (lines 215 to 240)\<close>

definition search_item :: "json \<Rightarrow> exn + (string \<times> json) list" where
  "search_item item =
     and_then (getitem_str item ''id'')
       (\<lambda>i. and_then (getitem_str i ''videoId'')
       (\<lambda>v. and_then (getitem_str item ''snippet'')
       (\<lambda>s1. and_then (getitem_str s1 ''title'')
       (\<lambda>t. and_then (getitem_str item ''snippet'')
       (\<lambda>s2. and_then (getitem_str s2 ''description'')
       (\<lambda>d. Inr [(''video_id'', v), (''title'', t), (''description'', d)]))))))"

text \<open>The \<^verbatim>\<open>for\<close> loop: \<open>vs\<close> is the list built so far, each item is appended.\<close>

fun search_loop :: "json list \<Rightarrow> (string \<times> json) list list \<Rightarrow> exn + (string \<times> json) list list" where
  "search_loop [] vs = Inr vs"
| "search_loop (item # items) vs =
     (case search_item item of
        Inl e \<Rightarrow> Inl e
      | Inr video \<Rightarrow> search_loop items (vs @ [video]))"

definition search_try :: "world \<Rightarrow> SearchRequest \<Rightarrow> (exn + SearchResponse) \<times> net_call list" where
  "search_try w request =
     (let url = ''https://www.googleapis.com/youtube/v3/search'';
          params = [(''q'', JStr (query request)), (''part'', JStr ''snippet''),
                    (''type'', JStr ''video''),
                    (''maxResults'', JInt (SearchRequest.max_results request))]
      in case make_api_request w url params of
           (r, calls) \<Rightarrow>
             (and_then r
                (\<lambda>data. and_then (dict_get data ''items'' (JArr []))
                (\<lambda>its. and_then (py_iter its)
                (\<lambda>items. and_then (search_loop items [])
                (\<lambda>vs. SearchResponse_init vs)))),
              calls))"

definition youtube_search_videos ::
  "world \<Rightarrow> SearchRequest \<Rightarrow> (exn + SearchResponse) \<times> net_call list" where
  "youtube_search_videos w request =
     (case search_try w request of (r, calls) \<Rightarrow> (reraise w r, calls))"

subsection \<open>Video details tool (lines 243 to 269)\<close>

definition details_try ::
  "world \<Rightarrow> VideoDetailsRequest \<Rightarrow> (exn + VideoDetailsResponse) \<times> net_call list" where
  "details_try w request =
     (let url = ''https://www.googleapis.com/youtube/v3/videos'';
          params = [(''id'', JStr (VideoDetailsRequest.video_id request)),
                    (''part'', JStr ''snippet'')]
      in case make_api_request w url params of
           (r, calls) \<Rightarrow>
             (and_then r
                (\<lambda>data. and_then (getitem_str data ''items'')
                (\<lambda>items. if \<not> py_truthy items then Inl (ValueError ''Video not found'')
                   else and_then (getitem_str data ''items'')
                (\<lambda>items. and_then (getitem_int items 0)
                (\<lambda>first. and_then (getitem_str first ''snippet'')
                (\<lambda>snippet. and_then (getitem_str snippet ''title'')
                (\<lambda>t. and_then (getitem_str snippet ''description'')
                (\<lambda>d. and_then (getitem_str snippet ''publishedAt'')
                (\<lambda>p. VideoDetailsResponse_init (VideoDetailsRequest.video_id request) t d p)))))))),
              calls))"

definition youtube_get_video_details ::
  "world \<Rightarrow> VideoDetailsRequest \<Rightarrow> (exn + VideoDetailsResponse) \<times> net_call list" where
  "youtube_get_video_details w request =
     (case details_try w request of (r, calls) \<Rightarrow> (reraise w r, calls))"

subsection \<open>Comments tool (lines 272 to 295)\<close>

definition comments_item :: "json \<Rightarrow> exn + json" where
  "comments_item item =
     and_then (getitem_str item ''snippet'')
       (\<lambda>s. and_then (getitem_str s ''topLevelComment'')
       (\<lambda>c. and_then (getitem_str c ''snippet'')
       (\<lambda>s2. getitem_str s2 ''textDisplay'')))"

fun comments_loop :: "json list \<Rightarrow> json list \<Rightarrow> exn + json list" where
  "comments_loop [] cs = Inr cs"
| "comments_loop (item # items) cs =
     (case comments_item item of
        Inl e \<Rightarrow> Inl e
      | Inr comment_text \<Rightarrow> comments_loop items (cs @ [comment_text]))"

definition comments_try ::
  "world \<Rightarrow> CommentsRequest \<Rightarrow> (exn + CommentsResponse) \<times> net_call list" where
  "comments_try w request =
     (let url = ''https://www.googleapis.com/youtube/v3/commentThreads'';
          params = [(''videoId'', JStr (CommentsRequest.video_id request)),
                    (''part'', JStr ''snippet''),
                    (''maxResults'', JInt (CommentsRequest.max_results request))]
      in case make_api_request w url params of
           (r, calls) \<Rightarrow>
             (and_then r
                (\<lambda>data. and_then (dict_get data ''items'' (JArr []))
                (\<lambda>its. and_then (py_iter its)
                (\<lambda>items. and_then (comments_loop items [])
                (\<lambda>cs. CommentsResponse_init cs)))),
              calls))"

definition youtube_get_comments ::
  "world \<Rightarrow> CommentsRequest \<Rightarrow> (exn + CommentsResponse) \<times> net_call list" where
  "youtube_get_comments w request =
     (case comments_try w request of (r, calls) \<Rightarrow> (reraise w r, calls))"

subsection \<open>Channel-video listing tool (lines 298 to 324)\<close>

definition channel_item :: "json \<Rightarrow> exn + (string \<times> json) list" where
  "channel_item item =
     and_then (getitem_str item ''id'')
       (\<lambda>i. and_then (getitem_str i ''videoId'')
       (\<lambda>v. and_then (getitem_str item ''snippet'')
       (\<lambda>s1. and_then (getitem_str s1 ''title'')
       (\<lambda>t. and_then (getitem_str item ''snippet'')
       (\<lambda>s2. and_then (getitem_str s2 ''description'')
       (\<lambda>d. Inr [(''video_id'', v), (''title'', t), (''description'', d)]))))))"

fun channel_loop :: "json list \<Rightarrow> (string \<times> json) list list \<Rightarrow> exn + (string \<times> json) list list" where
  "channel_loop [] vs = Inr vs"
| "channel_loop (item # items) vs =
     (case channel_item item of
        Inl e \<Rightarrow> Inl e
      | Inr video \<Rightarrow> channel_loop items (vs @ [video]))"

definition channel_try :: "world \<Rightarrow> SearchRequest \<Rightarrow> (exn + SearchResponse) \<times> net_call list" where
  "channel_try w request =
     (let url = ''https://www.googleapis.com/youtube/v3/search'';
          params = [(''q'', JStr (query request)), (''part'', JStr ''snippet''),
                    (''type'', JStr ''video''),
                    (''maxResults'', JInt (SearchRequest.max_results request))]
      in case make_api_request w url params of
           (r, calls) \<Rightarrow>
             (and_then r
                (\<lambda>data. and_then (dict_get data ''items'' (JArr []))
                (\<lambda>its. and_then (py_iter its)
                (\<lambda>items. and_then (channel_loop items [])
                (\<lambda>vs. SearchResponse_init vs)))),
              calls))"

definition youtube_list_channel_videos ::
  "world \<Rightarrow> SearchRequest \<Rightarrow> (exn + SearchResponse) \<times> net_call list" where
  "youtube_list_channel_videos w request =
     (case channel_try w request of (r, calls) \<Rightarrow> (reraise w r, calls))"

subsection \<open>A call from the host\<close>

text \<open>
  The host builds the request model from the call's arguments and then runs the tool
  on it. A request that does not validate never reaches the tool's body.
\<close>

definition call_get_youtube_transcript ::
  "world \<Rightarrow> string \<Rightarrow> (exn + TranscriptResponse) \<times> net_call list" where
  "call_get_youtube_transcript w v =
     (case TranscriptRequest_init v of
        Inl e \<Rightarrow> (Inl e, [])
      | Inr request \<Rightarrow> get_youtube_transcript w request)"

definition call_youtube_search_videos ::
  "world \<Rightarrow> string \<Rightarrow> int option \<Rightarrow> (exn + SearchResponse) \<times> net_call list" where
  "call_youtube_search_videos w q m =
     (case SearchRequest_init q m of
        Inl e \<Rightarrow> (Inl e, [])
      | Inr request \<Rightarrow> youtube_search_videos w request)"

definition call_youtube_get_video_details ::
  "world \<Rightarrow> string \<Rightarrow> (exn + VideoDetailsResponse) \<times> net_call list" where
  "call_youtube_get_video_details w v =
     (case VideoDetailsRequest_init v of
        Inl e \<Rightarrow> (Inl e, [])
      | Inr request \<Rightarrow> youtube_get_video_details w request)"

definition call_youtube_get_comments ::
  "world \<Rightarrow> string \<Rightarrow> int option \<Rightarrow> (exn + CommentsResponse) \<times> net_call list" where
  "call_youtube_get_comments w v m =
     (case CommentsRequest_init v m of
        Inl e \<Rightarrow> (Inl e, [])
      | Inr request \<Rightarrow> youtube_get_comments w request)"

definition call_youtube_list_channel_videos ::
  "world \<Rightarrow> string \<Rightarrow> int option \<Rightarrow> (exn + SearchResponse) \<times> net_call list" where
  "call_youtube_list_channel_videos w q m =
     (case SearchRequest_init q m of
        Inl e \<Rightarrow> (Inl e, [])
      | Inr request \<Rightarrow> youtube_list_channel_videos w request)"

section \<open>Example worlds\<close>

text \<open>
  Concrete collaborators for the examples below: a credential is set, the HTTP client
  answers every request with \<open>http\<close>, the transcript library answers with \<open>tr\<close>, and a
  validation error prints as the first line of pydantic's message.
\<close>

definition demo_world :: "exn + response \<Rightarrow> exn + json \<Rightarrow> world" where
  "demo_world http tr =
     \<lparr>environ = [''YOUTUBE_API_KEY'' \<mapsto> ''secret''],
      client_get = (\<lambda>url params. http),
      get_transcript = (\<lambda>vid. tr),
      validation_str = (\<lambda>model errs.
        str_nat (length errs)
        @ (if length errs = 1 then '' validation error for '' else '' validation errors for '')
        @ model)\<rparr>"

definition rick_fragments :: json where
  "rick_fragments =
     JArr [JObj [(''text'', JStr ''Never''), (''start'', JFloat 0 0), (''duration'', JFloat 15 (- 1))],
           JObj [(''text'', JStr ''gonna''), (''start'', JFloat 15 (- 1)), (''duration'', JFloat 1 0)],
           JObj [(''text'', JStr ''give''), (''start'', JFloat 25 (- 1)), (''duration'', JFloat 2 0)]]"

definition rick_videos :: response where
  "rick_videos =
     \<lparr>status_code = 200,
      text = ''{\"items\": [{\"id\": \"dQw4w9WgXcQ\", \"snippet\": {''
             @ ''\"title\": \"Rick Astley - Never Gonna Give You Up\", ''
             @ ''\"description\": \"The official video\", ''
             @ ''\"publishedAt\": \"2009-10-25T06:57:33Z\"}}]}'',
      json = Inr (JObj [(''items'',
               JArr [JObj [(''id'', JStr ''dQw4w9WgXcQ''),
                           (''snippet'',
                              JObj [(''title'', JStr ''Rick Astley - Never Gonna Give You Up''),
                                    (''description'', JStr ''The official video''),
                                    (''publishedAt'', JStr ''2009-10-25T06:57:33Z'')])]])])\<rparr>"

definition cat_item :: "string \<Rightarrow> json" where
  "cat_item i =
     JObj [(''id'', JObj [(''videoId'', JStr (''cat0000000'' @ i))]),
           (''snippet'', JObj [(''title'', JStr (''Cat '' @ i)), (''description'', JStr ''a cat'')])]"

definition cat_item_text :: "string \<Rightarrow> string" where
  "cat_item_text i =
     ''{\"id\": {\"videoId\": \"cat0000000'' @ i @ ''\"}, \"snippet\": {\"title\": \"Cat '' @ i
     @ ''\", \"description\": \"a cat\"}}''"

definition five_cats :: response where
  "five_cats =
     \<lparr>status_code = 200,
      text = ''{\"items\": ['' @ str_join '', '' (map cat_item_text [''1'', ''2'', ''3'', ''4'', ''5''])
             @ '']}'',
      json = Inr (JObj [(''items'', JArr (map cat_item [''1'', ''2'', ''3'', ''4'', ''5'']))])\<rparr>"

text \<open>The record the search tools build from \<open>cat_item i\<close>.\<close>

definition cat_video :: "string \<Rightarrow> (string \<times> json) list" where
  "cat_video i =
     [(''video_id'', JStr (''cat0000000'' @ i)), (''title'', JStr (''Cat '' @ i)),
      (''description'', JStr ''a cat'')]"

definition empty_items :: response where
  "empty_items =
     \<lparr>status_code = 200, text = ''{\"items\": []}'', json = Inr (JObj [(''items'', JArr [])])\<rparr>"

definition no_items :: response where
  "no_items =
     \<lparr>status_code = 200, text = ''{\"kind\": \"youtube#listResponse\"}'',
      json = Inr (JObj [(''kind'', JStr ''youtube#listResponse'')])\<rparr>"

definition not_found :: response where
  "not_found =
     \<lparr>status_code = 404, text = ''Not Found'',
      json = Inl (LibraryError ''Expecting value: line 1 column 1 (char 0)'')\<rparr>"

text \<open>The same collaborators in a process whose environment has no credential.\<close>

definition no_credential_world :: world where
  "no_credential_world = (demo_world (Inr not_found) (Inr rick_fragments))\<lparr>environ := Map.empty\<rparr>"

section \<open>Basic facts\<close>

lemma and_then_Inl [simp]: "and_then (Inl e) f = Inl e"
  by (simp add: and_then_def)

lemma and_then_Inr [simp]: "and_then (Inr x) f = f x"
  by (simp add: and_then_def)

lemma and_then_Inr_iff: "and_then r f = Inr y \<longleftrightarrow> (\<exists>x. r = Inr x \<and> f x = Inr y)"
  by (cases r) simp_all

lemma reraise_Inl_iff:
  "reraise w r = Inl e \<longleftrightarrow> (\<exists>e0. r = Inl e0 \<and> e = ValueError (''API Error: '' @ str_exn w e0))"
  by (cases r) (auto simp: reraise_def handle_api_error_def)

lemma reraise_Inr_iff: "reraise w r = Inr x \<longleftrightarrow> r = Inr x"
  by (cases r) (auto simp: reraise_def)

lemma reraise_simps [simp]:
  "reraise w (Inl e0) = Inl (ValueError (''API Error: '' @ str_exn w e0))"
  "reraise w (Inr x) = Inr x"
  by (simp_all add: reraise_def handle_api_error_def)

lemma sublist_within: "sublist e ys \<Longrightarrow> sublist e (ps @ ys @ ss)"
proof -
  assume "sublist e ys"
  then obtain p s where "ys = p @ e @ s" by (auto simp: sublist_def)
  then have "ps @ ys @ ss = (ps @ p) @ e @ (s @ ss)" by simp
  then show ?thesis unfolding sublist_def by blast
qed

lemma sublist_str_join: "e \<in> set es \<Longrightarrow> sublist e (str_join sep es)"
proof (induction sep es rule: str_join.induct)
  case (1 sep)
  then show ?case by simp
next
  case (2 sep x)
  then show ?case by simp
next
  case (3 sep x y ys)
  show ?case
  proof (cases "e = x")
    case True
    then show ?thesis by (simp add: sublist_append_rightI)
  next
    case False
    with 3 have "sublist e (str_join sep (y # ys))" by simp
    then have "sublist e ((x @ sep) @ str_join sep (y # ys) @ [])" by (rule sublist_within)
    then show ?thesis by simp
  qed
qed

lemma str_int_404: "str_int 404 = ''404''"
  by (simp add: str_int_def str_nat.simps)

section \<open>Startup without a credential\<close>

lemma Config_error_msg_lists_all:
  "e \<in> set errors \<Longrightarrow> sublist (''  - '' @ e) (Config_error_msg errors)"
proof -
  assume "e \<in> set errors"
  then have "''  - '' @ e \<in> set (map (\<lambda>e. ''  - '' @ e) errors)" by auto
  then have "sublist (''  - '' @ e) (str_join ''\<newline>'' (map (\<lambda>e. ''  - '' @ e) errors))"
    by (rule sublist_str_join)
  then show ?thesis
    unfolding Config_error_msg_def by (rule sublist_within)
qed

text \<open>
  Claim C8. When \<^verbatim>\<open>YOUTUBE_API_KEY\<close> is absent from the environment, \<open>Config.validate\<close>
  collects the one violation, raises a \<^verbatim>\<open>ValueError\<close> whose message lists every
  collected violation on a line of its own (here the line naming \<^verbatim>\<open>YOUTUBE_API_KEY\<close>),
  and loading the module fails with that error, so that no tool is registered.
\<close>

theorem missing_credential_fails_startup:
  assumes "environ w ''YOUTUBE_API_KEY'' = None"
  shows "Config_errors w = [''YOUTUBE_API_KEY is required'']
       \<and> Config_validate w = Inl (ValueError (Config_error_msg (Config_errors w)))
       \<and> load_module w = Inl (ValueError (Config_error_msg (Config_errors w)))
       \<and> Config_error_msg (Config_errors w) =
           ''Missing required environment variables:\<newline>  - YOUTUBE_API_KEY is required''
           @ ''\<newline>\<newline>See module docstring for configuration details.''
       \<and> (\<forall>e \<in> set (Config_errors w). sublist (''  - '' @ e) (Config_error_msg (Config_errors w)))"
proof -
  have errs: "Config_errors w = [''YOUTUBE_API_KEY is required'']"
    using assms by (simp add: Config_errors_def YOUTUBE_API_KEY_def)
  have v: "Config_validate w = Inl (ValueError (Config_error_msg (Config_errors w)))"
    by (simp add: Config_validate_def errs)
  have l: "load_module w = Inl (ValueError (Config_error_msg (Config_errors w)))"
    by (simp add: load_module_def v)
  have m: "Config_error_msg (Config_errors w) =
           ''Missing required environment variables:\<newline>  - YOUTUBE_API_KEY is required''
           @ ''\<newline>\<newline>See module docstring for configuration details.''"
    by (simp add: errs Config_error_msg_def)
  have a: "\<forall>e \<in> set (Config_errors w). sublist (''  - '' @ e) (Config_error_msg (Config_errors w))"
    using Config_error_msg_lists_all by blast
  from errs v l m a show ?thesis by blast
qed

theorem missing_credential_fails_startup_witness:
  "load_module no_credential_world
   = Inl (ValueError (''Missing required environment variables:\<newline>  - YOUTUBE_API_KEY is required''
           @ ''\<newline>\<newline>See module docstring for configuration details.''))"
proof -
  have h: "environ no_credential_world ''YOUTUBE_API_KEY'' = None"
    by (simp add: no_credential_world_def)
  note r = missing_credential_fails_startup [OF h]
  from r have "load_module no_credential_world
      = Inl (ValueError (Config_error_msg (Config_errors no_credential_world)))" by blast
  moreover from r have "Config_error_msg (Config_errors no_credential_world) =
           ''Missing required environment variables:\<newline>  - YOUTUBE_API_KEY is required''
           @ ''\<newline>\<newline>See module docstring for configuration details.''" by blast
  ultimately show ?thesis by simp
qed

section \<open>The transport helper\<close>

text \<open>
  The helper returns a value exactly when the client delivered a response with status
  200 whose body parses: this is what "a 200 remote response" means for the tools.
\<close>

lemma make_api_request_Inr_iff:
  "fst (make_api_request w url params) = Inr data
   \<longleftrightarrow> (\<exists>response.
          client_get w url (dict_set params ''key''
             (case YOUTUBE_API_KEY w of None \<Rightarrow> JNull | Some k \<Rightarrow> JStr k)) = Inr response
        \<and> status_code response = 200 \<and> json response = Inr data)"
  by (auto simp: make_api_request_def Let_def and_then_Inr_iff split: if_splits)

text \<open>
  Claim C6. Whenever the HTTP client delivers a response: on status 200 the helper's
  outcome is the outcome of \<^verbatim>\<open>response.json()\<close>, that is the parsed body; on any other
  status it raises a \<^verbatim>\<open>ValueError\<close> whose message is
  \<^verbatim>\<open>API request failed: <status> - <body text>\<close>, which contains the decimal status code
  and the raw body text.
\<close>

theorem make_api_request_contract:
  assumes "client_get w url (dict_set params ''key''
             (case YOUTUBE_API_KEY w of None \<Rightarrow> JNull | Some k \<Rightarrow> JStr k)) = Inr response"
  shows "(status_code response = 200 \<longrightarrow>
            fst (make_api_request w url params) = json response)
       \<and> (status_code response \<noteq> 200 \<longrightarrow>
            fst (make_api_request w url params)
              = Inl (ValueError (''API request failed: '' @ str_int (status_code response)
                                 @ '' - '' @ text response))
            \<and> sublist (str_int (status_code response))
                 (''API request failed: '' @ str_int (status_code response)
                  @ '' - '' @ text response)
            \<and> sublist (text response)
                 (''API request failed: '' @ str_int (status_code response)
                  @ '' - '' @ text response))"
proof -
  have s1: "sublist (str_int (status_code response))
                 (''API request failed: '' @ str_int (status_code response)
                  @ '' - '' @ text response)"
    by (rule sublist_appendI)
  have s2: "sublist (text response)
                 (''API request failed: '' @ str_int (status_code response)
                  @ '' - '' @ text response)"
    using sublist_append_leftI [of "text response"
        "''API request failed: '' @ str_int (status_code response) @ '' - ''"]
    by simp
  show ?thesis using assms s1 s2
    by (simp add: make_api_request_def Let_def)
qed

theorem make_api_request_contract_witness:
  "fst (make_api_request (demo_world (Inr not_found) (Inr rick_fragments))
          ''https://www.googleapis.com/youtube/v3/videos''
          [(''id'', JStr ''dQw4w9WgXcQ''), (''part'', JStr ''snippet'')])
     = Inl (ValueError ''API request failed: 404 - Not Found'')
   \<and> fst (make_api_request (demo_world (Inr rick_videos) (Inr rick_fragments))
          ''https://www.googleapis.com/youtube/v3/videos''
          [(''id'', JStr ''dQw4w9WgXcQ''), (''part'', JStr ''snippet'')])
     = json rick_videos"
  using make_api_request_contract
    [of "demo_world (Inr not_found) (Inr rick_fragments)"
        "''https://www.googleapis.com/youtube/v3/videos''"
        "[(''id'', JStr ''dQw4w9WgXcQ''), (''part'', JStr ''snippet'')]" not_found]
    make_api_request_contract
    [of "demo_world (Inr rick_videos) (Inr rick_fragments)"
        "''https://www.googleapis.com/youtube/v3/videos''"
        "[(''id'', JStr ''dQw4w9WgXcQ''), (''part'', JStr ''snippet'')]" rick_videos]
  by (simp add: demo_world_def not_found_def rick_videos_def str_int_404)

section \<open>Channel listing and search\<close>

lemma channel_item_eq: "channel_item = search_item"
  by (rule ext) (simp add: channel_item_def search_item_def)

lemma channel_loop_eq: "channel_loop items vs = search_loop items vs"
  by (induction items arbitrary: vs) (simp_all add: channel_item_eq split: sum.split)

lemma channel_try_eq: "channel_try w request = search_try w request"
  by (simp add: channel_try_def search_try_def channel_loop_eq)

lemma channel_tool_eq: "youtube_list_channel_videos w request = youtube_search_videos w request"
  by (simp add: youtube_list_channel_videos_def youtube_search_videos_def channel_try_eq)

text \<open>
  Claim C3. The channel-video listing tool and the search tool are the same function of
  the request and the world: the same outcome (response or error) and the same request
  sent out (same endpoint, same parameters, the query passed through unchanged), both
  for the tool run on a request and for a call from the host with raw arguments.
\<close>

theorem channel_listing_equals_search:
  "youtube_list_channel_videos w request = youtube_search_videos w request
   \<and> call_youtube_list_channel_videos w q m = call_youtube_search_videos w q m"
  by (simp add: channel_tool_eq call_youtube_list_channel_videos_def
        call_youtube_search_videos_def split: sum.split)

section \<open>Rejection of invalid requests\<close>

lemma py_strip_all_space: "\<forall>c \<in> set q. py_isspace c \<Longrightarrow> py_strip q = []"
proof -
  assume "\<forall>c \<in> set q. py_isspace c"
  then have d: "dropWhile py_isspace q = []" by (simp only: dropWhile_eq_Nil_conv)
  show ?thesis unfolding py_strip_def d by simp
qed

lemma validate_video_id_bad:
  "length v \<noteq> 11 \<Longrightarrow> validate_video_id v = Inl (ValueError ''video_id must be exactly 11 characters'')"
  by (simp add: validate_video_id_def)

lemma validate_query_blank:
  "\<forall>c \<in> set q. py_isspace c \<Longrightarrow> validate_query q = Inl (ValueError ''query cannot be empty'')"
  by (simp add: validate_query_def py_strip_all_space)

lemma TranscriptRequest_init_bad:
  "length v \<noteq> 11 \<Longrightarrow> TranscriptRequest_init v
     = Inl (ValidationError ''TranscriptRequest''
              [(''video_id'', Value_error ''video_id must be exactly 11 characters'')])"
  by (simp add: TranscriptRequest_init_def validate_video_id_bad)

lemma VideoDetailsRequest_init_bad:
  "length v \<noteq> 11 \<Longrightarrow> VideoDetailsRequest_init v
     = Inl (ValidationError ''VideoDetailsRequest''
              [(''video_id'', Value_error ''video_id must be exactly 11 characters'')])"
  by (simp add: VideoDetailsRequest_init_def validate_video_id_bad)

lemma CommentsRequest_init_bad_id:
  "length v \<noteq> 11 \<Longrightarrow> \<exists>errs. CommentsRequest_init v m = Inl (ValidationError ''CommentsRequest'' errs)"
  by (simp add: CommentsRequest_init_def validate_video_id_bad Let_def)

lemma bound_errors_outside: "n < lo \<or> hi < n \<Longrightarrow> bound_errors field lo hi n \<noteq> []"
  by (auto simp: bound_errors_def)

lemma CommentsRequest_init_bad_limit:
  "n < 1 \<or> 100 < n \<Longrightarrow> \<exists>errs. CommentsRequest_init v (Some n) = Inl (ValidationError ''CommentsRequest'' errs)"
  using bound_errors_outside [of n 1 100 "''max_results''"]
  by (auto simp: CommentsRequest_init_def Let_def split: list.split sum.split)

lemma SearchRequest_init_bad_limit:
  "n < 1 \<or> 50 < n \<Longrightarrow> \<exists>errs. SearchRequest_init q (Some n) = Inl (ValidationError ''SearchRequest'' errs)"
  using bound_errors_outside [of n 1 50 "''max_results''"]
  by (auto simp: SearchRequest_init_def Let_def split: list.split sum.split)

lemma SearchRequest_init_blank:
  "\<forall>c \<in> set q. py_isspace c \<Longrightarrow> \<exists>errs. SearchRequest_init q m = Inl (ValidationError ''SearchRequest'' errs)"
  by (simp add: SearchRequest_init_def validate_query_blank Let_def)

text \<open>
  Claim C5. A call whose identifier does not have exactly 11 characters (the empty
  identifier included), whose \<^verbatim>\<open>max_results\<close> lies outside 1 to 50 (search, channel
  listing) or 1 to 100 (comments), or whose query is empty or all white space, ends
  with a validation error and with no call sent out: neither an HTTP request nor a
  transcript fetch.
\<close>

theorem invalid_input_rejected_before_network:
  "(length v \<noteq> 11 \<longrightarrow>
      (\<exists>errs. call_get_youtube_transcript w v = (Inl (ValidationError ''TranscriptRequest'' errs), []))
    \<and> (\<exists>errs. call_youtube_get_video_details w v
                = (Inl (ValidationError ''VideoDetailsRequest'' errs), []))
    \<and> (\<exists>errs. call_youtube_get_comments w v m = (Inl (ValidationError ''CommentsRequest'' errs), [])))
 \<and> (n < 1 \<or> 50 < n \<longrightarrow>
      (\<exists>errs. call_youtube_search_videos w q (Some n) = (Inl (ValidationError ''SearchRequest'' errs), []))
    \<and> (\<exists>errs. call_youtube_list_channel_videos w q (Some n)
                = (Inl (ValidationError ''SearchRequest'' errs), [])))
 \<and> (n < 1 \<or> 100 < n \<longrightarrow>
      (\<exists>errs. call_youtube_get_comments w v (Some n) = (Inl (ValidationError ''CommentsRequest'' errs), [])))
 \<and> ((\<forall>c \<in> set q. py_isspace c) \<longrightarrow>
      (\<exists>errs. call_youtube_search_videos w q m = (Inl (ValidationError ''SearchRequest'' errs), []))
    \<and> (\<exists>errs. call_youtube_list_channel_videos w q m
                = (Inl (ValidationError ''SearchRequest'' errs), [])))"
proof -
  have a: "length v \<noteq> 11 \<Longrightarrow>
      (\<exists>errs. call_get_youtube_transcript w v = (Inl (ValidationError ''TranscriptRequest'' errs), []))"
    by (simp add: call_get_youtube_transcript_def TranscriptRequest_init_bad)
  have b: "length v \<noteq> 11 \<Longrightarrow>
      (\<exists>errs. call_youtube_get_video_details w v
                = (Inl (ValidationError ''VideoDetailsRequest'' errs), []))"
    by (simp add: call_youtube_get_video_details_def VideoDetailsRequest_init_bad)
  have c: "length v \<noteq> 11 \<Longrightarrow>
      (\<exists>errs. call_youtube_get_comments w v m = (Inl (ValidationError ''CommentsRequest'' errs), []))"
    using CommentsRequest_init_bad_id [of v m]
    by (auto simp: call_youtube_get_comments_def)
  have d: "n < 1 \<or> 50 < n \<Longrightarrow>
      (\<exists>errs. call_youtube_search_videos w q (Some n) = (Inl (ValidationError ''SearchRequest'' errs), []))"
    using SearchRequest_init_bad_limit [of n q]
    by (auto simp: call_youtube_search_videos_def)
  have e: "n < 1 \<or> 50 < n \<Longrightarrow>
      (\<exists>errs. call_youtube_list_channel_videos w q (Some n)
                = (Inl (ValidationError ''SearchRequest'' errs), []))"
    using SearchRequest_init_bad_limit [of n q]
    by (auto simp: call_youtube_list_channel_videos_def)
  have f: "n < 1 \<or> 100 < n \<Longrightarrow>
      (\<exists>errs. call_youtube_get_comments w v (Some n) = (Inl (ValidationError ''CommentsRequest'' errs), []))"
    using CommentsRequest_init_bad_limit [of n v]
    by (auto simp: call_youtube_get_comments_def)
  have g: "(\<forall>c \<in> set q. py_isspace c) \<Longrightarrow>
      (\<exists>errs. call_youtube_search_videos w q m = (Inl (ValidationError ''SearchRequest'' errs), []))"
    using SearchRequest_init_blank [of q m]
    by (auto simp: call_youtube_search_videos_def)
  have h: "(\<forall>c \<in> set q. py_isspace c) \<Longrightarrow>
      (\<exists>errs. call_youtube_list_channel_videos w q m
                = (Inl (ValidationError ''SearchRequest'' errs), []))"
    using SearchRequest_init_blank [of q m]
    by (auto simp: call_youtube_list_channel_videos_def)
  from a b c d e f g h show ?thesis by blast
qed

theorem invalid_input_rejected_before_network_witness:
  "call_get_youtube_transcript (demo_world (Inr rick_videos) (Inr rick_fragments)) ''short''
     = (Inl (ValidationError ''TranscriptRequest''
               [(''video_id'', Value_error ''video_id must be exactly 11 characters'')]), [])
   \<and> call_youtube_get_video_details (demo_world (Inr rick_videos) (Inr rick_fragments)) ''short''
     = (Inl (ValidationError ''VideoDetailsRequest''
               [(''video_id'', Value_error ''video_id must be exactly 11 characters'')]), [])
   \<and> call_youtube_get_comments (demo_world (Inr rick_videos) (Inr rick_fragments)) ''short'' (Some 101)
     = (Inl (ValidationError ''CommentsRequest''
               [(''video_id'', Value_error ''video_id must be exactly 11 characters''),
                (''max_results'', Less_than_equal 100)]), [])
   \<and> call_youtube_search_videos (demo_world (Inr rick_videos) (Inr rick_fragments)) ''   '' (Some 101)
     = (Inl (ValidationError ''SearchRequest''
               [(''query'', Value_error ''query cannot be empty''),
                (''max_results'', Less_than_equal 50)]), [])
   \<and> call_youtube_list_channel_videos (demo_world (Inr rick_videos) (Inr rick_fragments)) ''   '' (Some 101)
     = (Inl (ValidationError ''SearchRequest''
               [(''query'', Value_error ''query cannot be empty''),
                (''max_results'', Less_than_equal 50)]), [])"
  using invalid_input_rejected_before_network
    [of "''short''" "demo_world (Inr rick_videos) (Inr rick_fragments)" "Some 101" 101 "''   ''"]
  by (auto simp: call_get_youtube_transcript_def call_youtube_get_video_details_def
      call_youtube_get_comments_def call_youtube_search_videos_def
      call_youtube_list_channel_videos_def TranscriptRequest_init_def
      VideoDetailsRequest_init_def CommentsRequest_init_def SearchRequest_init_def
      validate_video_id_def validate_query_def py_strip_def py_isspace_def bound_errors_def)

section \<open>Error wrapping at the tool boundary\<close>

lemma tool_fails_iff:
  "fst (case p of (r, calls) \<Rightarrow> (reraise w r, calls)) = Inl e
   \<longleftrightarrow> (\<exists>e0. fst p = Inl e0 \<and> e = ValueError (''API Error: '' @ str_exn w e0))"
  by (cases p) (simp add: reraise_Inl_iff)

lemma transcript_first_block_fails:
  assumes "fst (transcript_try w (TranscriptRequest.video_id treq)) = Inl e0"
  shows "fst (get_youtube_transcript w treq) = Inl (ValueError (''API Error: '' @ str_exn w e0))"
  using assms
  by (cases "transcript_try w (TranscriptRequest.video_id treq)")
     (simp add: get_youtube_transcript_def Let_def)

lemma transcript_second_block_fails:
  assumes "fst (transcript_try w (TranscriptRequest.video_id treq)) = Inr tr"
    and "fst (metadata_try w (TranscriptRequest.video_id treq)) = Inl e0"
  shows "fst (get_youtube_transcript w treq) = Inl (ValueError (''API Error: '' @ str_exn w e0))"
  using assms
  by (cases "transcript_try w (TranscriptRequest.video_id treq)";
      cases "metadata_try w (TranscriptRequest.video_id treq)")
     (simp add: get_youtube_transcript_def Let_def)

text \<open>
  Claim C1, as amended. An exception \<open>e0\<close> raised inside a tool's \<^verbatim>\<open>try\<close> block
  (transcript retrieval, transport, the not-found check, field extraction, and for the
  search, details, comments and channel tools also the construction of the response) is
  re-raised as a \<^verbatim>\<open>ValueError\<close> whose message is \<^verbatim>\<open>API Error: \<close> followed by the message of
  \<open>e0\<close>, and these tools fail in no other way. A request that does not validate is
  refused when the request model is built, before the tool body is entered: the caller
  gets the validation error itself.
\<close>

theorem errors_in_tool_body_are_wrapped:
  "handle_api_error w e0 = ''API Error: '' @ str_exn w e0
 \<and> (fst (youtube_search_videos w sreq) = Inl e
      \<longleftrightarrow> (\<exists>e1. fst (search_try w sreq) = Inl e1 \<and> e = ValueError (''API Error: '' @ str_exn w e1)))
 \<and> (fst (youtube_list_channel_videos w sreq) = Inl e
      \<longleftrightarrow> (\<exists>e1. fst (channel_try w sreq) = Inl e1 \<and> e = ValueError (''API Error: '' @ str_exn w e1)))
 \<and> (fst (youtube_get_video_details w dreq) = Inl e
      \<longleftrightarrow> (\<exists>e1. fst (details_try w dreq) = Inl e1 \<and> e = ValueError (''API Error: '' @ str_exn w e1)))
 \<and> (fst (youtube_get_comments w creq) = Inl e
      \<longleftrightarrow> (\<exists>e1. fst (comments_try w creq) = Inl e1 \<and> e = ValueError (''API Error: '' @ str_exn w e1)))
 \<and> (fst (transcript_try w (TranscriptRequest.video_id treq)) = Inl e0
      \<longrightarrow> fst (get_youtube_transcript w treq) = Inl (ValueError (''API Error: '' @ str_exn w e0)))
 \<and> (fst (transcript_try w (TranscriptRequest.video_id treq)) = Inr tr
      \<and> fst (metadata_try w (TranscriptRequest.video_id treq)) = Inl e0
      \<longrightarrow> fst (get_youtube_transcript w treq) = Inl (ValueError (''API Error: '' @ str_exn w e0)))
 \<and> (TranscriptRequest_init v = Inl e \<longrightarrow> call_get_youtube_transcript w v = (Inl e, []))
 \<and> (VideoDetailsRequest_init v = Inl e \<longrightarrow> call_youtube_get_video_details w v = (Inl e, []))
 \<and> (CommentsRequest_init v m = Inl e \<longrightarrow> call_youtube_get_comments w v m = (Inl e, []))
 \<and> (SearchRequest_init q m = Inl e
      \<longrightarrow> call_youtube_search_videos w q m = (Inl e, [])
        \<and> call_youtube_list_channel_videos w q m = (Inl e, []))"
proof -
  have h: "handle_api_error w e0 = ''API Error: '' @ str_exn w e0"
    by (simp add: handle_api_error_def)
  have s: "fst (youtube_search_videos w sreq) = Inl e
      \<longleftrightarrow> (\<exists>e1. fst (search_try w sreq) = Inl e1 \<and> e = ValueError (''API Error: '' @ str_exn w e1))"
    unfolding youtube_search_videos_def by (rule tool_fails_iff)
  have c: "fst (youtube_list_channel_videos w sreq) = Inl e
      \<longleftrightarrow> (\<exists>e1. fst (channel_try w sreq) = Inl e1 \<and> e = ValueError (''API Error: '' @ str_exn w e1))"
    unfolding youtube_list_channel_videos_def by (rule tool_fails_iff)
  have d: "fst (youtube_get_video_details w dreq) = Inl e
      \<longleftrightarrow> (\<exists>e1. fst (details_try w dreq) = Inl e1 \<and> e = ValueError (''API Error: '' @ str_exn w e1))"
    unfolding youtube_get_video_details_def by (rule tool_fails_iff)
  have k: "fst (youtube_get_comments w creq) = Inl e
      \<longleftrightarrow> (\<exists>e1. fst (comments_try w creq) = Inl e1 \<and> e = ValueError (''API Error: '' @ str_exn w e1))"
    unfolding youtube_get_comments_def by (rule tool_fails_iff)
  have v1: "TranscriptRequest_init v = Inl e \<longrightarrow> call_get_youtube_transcript w v = (Inl e, [])"
    by (simp add: call_get_youtube_transcript_def)
  have v2: "VideoDetailsRequest_init v = Inl e \<longrightarrow> call_youtube_get_video_details w v = (Inl e, [])"
    by (simp add: call_youtube_get_video_details_def)
  have v3: "CommentsRequest_init v m = Inl e \<longrightarrow> call_youtube_get_comments w v m = (Inl e, [])"
    by (simp add: call_youtube_get_comments_def)
  have v4: "SearchRequest_init q m = Inl e
      \<longrightarrow> call_youtube_search_videos w q m = (Inl e, [])
        \<and> call_youtube_list_channel_videos w q m = (Inl e, [])"
    by (simp add: call_youtube_search_videos_def call_youtube_list_channel_videos_def)
  from h s c d k transcript_first_block_fails [of w treq e0]
    transcript_second_block_fails [of w treq tr e0] v1 v2 v3 v4
  show ?thesis by blast
qed

theorem errors_in_tool_body_are_wrapped_witness:
  "fst (youtube_search_videos (demo_world (Inr not_found) (Inr rick_fragments))
          \<lparr>query = ''cats'', SearchRequest.max_results = 3\<rparr>)
     = Inl (ValueError ''API Error: API request failed: 404 - Not Found'')
   \<and> fst (get_youtube_transcript (demo_world (Inr not_found) (Inr rick_fragments))
          \<lparr>TranscriptRequest.video_id = ''dQw4w9WgXcQ''\<rparr>)
     = Inl (ValueError ''API Error: API request failed: 404 - Not Found'')
   \<and> fst (get_youtube_transcript (demo_world (Inr not_found) (Inl (LibraryError ''Subtitles are disabled for this video'')))
          \<lparr>TranscriptRequest.video_id = ''dQw4w9WgXcQ''\<rparr>)
     = Inl (ValueError ''API Error: Subtitles are disabled for this video'')"
proof -
  let ?w = "demo_world (Inr not_found) (Inr rick_fragments)"
  let ?w' = "demo_world (Inr not_found) (Inl (LibraryError ''Subtitles are disabled for this video''))"
  let ?s = "\<lparr>query = ''cats'', SearchRequest.max_results = 3\<rparr>"
  let ?t = "\<lparr>TranscriptRequest.video_id = ''dQw4w9WgXcQ''\<rparr>"
  let ?e = "ValueError ''API request failed: 404 - Not Found''"
  have a: "fst (search_try ?w ?s) = Inl ?e"
    by (simp add: search_try_def make_api_request_def demo_world_def not_found_def
          str_int_404 Let_def)
  have b: "fst (transcript_try ?w ''dQw4w9WgXcQ'') = Inr ''Never gonna give''"
    by (simp add: transcript_try_def demo_world_def rick_fragments_def py_join_def)
  have c: "fst (metadata_try ?w ''dQw4w9WgXcQ'') = Inl ?e"
    by (simp add: metadata_try_def make_api_request_def demo_world_def not_found_def
          str_int_404 Let_def)
  have d: "fst (transcript_try ?w' ''dQw4w9WgXcQ'')
            = Inl (LibraryError ''Subtitles are disabled for this video'')"
    by (simp add: transcript_try_def demo_world_def)
  note r = errors_in_tool_body_are_wrapped
    [of ?w ?e ?s "ValueError (''API Error: '' @ str_exn ?w ?e)" _ _ ?t "''Never gonna give''"]
  note r' = errors_in_tool_body_are_wrapped
    [of ?w' "LibraryError ''Subtitles are disabled for this video''" _ _ _ _ ?t]
  from r a have "fst (youtube_search_videos ?w ?s) = Inl (ValueError (''API Error: '' @ str_exn ?w ?e))"
    by blast
  moreover from r b c
  have "fst (get_youtube_transcript ?w ?t) = Inl (ValueError (''API Error: '' @ str_exn ?w ?e))"
    by simp
  moreover from r' d
  have "fst (get_youtube_transcript ?w' ?t)
          = Inl (ValueError (''API Error: '' @ str_exn ?w' (LibraryError ''Subtitles are disabled for this video'')))"
    by simp
  ultimately show ?thesis by simp
qed

text \<open>
  Claim C1 as stated fails: the identifier \<^verbatim>\<open>short\<close> is refused by the validator of
  \<^verbatim>\<open>TranscriptRequest\<close>, and what the caller gets is the validation error, not a
  \<^verbatim>\<open>ValueError\<close> with the validator's message behind \<^verbatim>\<open>API Error: \<close>.
\<close>

theorem validation_failure_is_not_wrapped:
  "fst (call_get_youtube_transcript (demo_world (Inr rick_videos) (Inr rick_fragments)) ''short'')
     = Inl (ValidationError ''TranscriptRequest''
              [(''video_id'', Value_error ''video_id must be exactly 11 characters'')])
   \<and> fst (call_get_youtube_transcript (demo_world (Inr rick_videos) (Inr rick_fragments)) ''short'')
     \<noteq> Inl (ValueError (''API Error: '' @ ''video_id must be exactly 11 characters''))
   \<and> \<not> prefix ''API Error: ''
         (str_exn (demo_world (Inr rick_videos) (Inr rick_fragments))
            (ValidationError ''TranscriptRequest''
               [(''video_id'', Value_error ''video_id must be exactly 11 characters'')]))"
  by (simp add: call_get_youtube_transcript_def TranscriptRequest_init_def
        validate_video_id_def demo_world_def str_nat.simps)

section \<open>Length of the search result\<close>

lemma search_loop_Inr_iff:
  "search_loop items vs = Inr out \<longleftrightarrow> (\<exists>ys. map search_item items = map Inr ys \<and> out = vs @ ys)"
proof (induction items arbitrary: vs)
  case Nil
  then show ?case by auto
next
  case (Cons item items)
  show ?case
  proof (cases "search_item item")
    case (Inl e)
    then show ?thesis by (auto simp: map_eq_Cons_conv)
  next
    case (Inr v)
    then show ?thesis using Cons.IH [of "vs @ [v]"]
      by (auto simp: map_eq_Cons_conv)
  qed
qed

lemma snd_make_api_request:
  "snd (make_api_request w url params)
     = [HttpGet url (dict_set params ''key''
                       (case YOUTUBE_API_KEY w of None \<Rightarrow> JNull | Some k \<Rightarrow> JStr k))]"
  by (simp add: make_api_request_def Let_def)

text \<open>
  Claim C2, as amended. A successful search (or channel listing) returns exactly one
  record per item of the remote response's item list, in the remote's order: record
  number \<open>k\<close> is the projection of item number \<open>k\<close>, so the length of the result is the
  number of items the remote returned. The requested limit is sent to the remote as
  \<^verbatim>\<open>maxResults\<close> and is not enforced locally.
\<close>

theorem search_result_follows_remote_items:
  assumes "youtube_search_videos w request = (Inr resp, calls)"
  shows "(\<exists>data its items.
            fst (make_api_request w ''https://www.googleapis.com/youtube/v3/search''
                   [(''q'', JStr (query request)), (''part'', JStr ''snippet''),
                    (''type'', JStr ''video''),
                    (''maxResults'', JInt (SearchRequest.max_results request))]) = Inr data
          \<and> dict_get data ''items'' (JArr []) = Inr its
          \<and> py_iter its = Inr items
          \<and> map search_item items = map Inr (videos resp)
          \<and> length (videos resp) = length items)
       \<and> calls = [HttpGet ''https://www.googleapis.com/youtube/v3/search''
                    (dict_set [(''q'', JStr (query request)), (''part'', JStr ''snippet''),
                               (''type'', JStr ''video''),
                               (''maxResults'', JInt (SearchRequest.max_results request))]
                       ''key'' (case YOUTUBE_API_KEY w of None \<Rightarrow> JNull | Some k \<Rightarrow> JStr k))]
       \<and> youtube_list_channel_videos w request = (Inr resp, calls)"
proof -
  let ?url = "''https://www.googleapis.com/youtube/v3/search''"
  let ?params = "[(''q'', JStr (query request)), (''part'', JStr ''snippet''),
                  (''type'', JStr ''video''),
                  (''maxResults'', JInt (SearchRequest.max_results request))]"
  obtain r c where m: "make_api_request w ?url ?params = (r, c)"
    by (cases "make_api_request w ?url ?params")
  from assms m have body: "reraise w (and_then r
                (\<lambda>data. and_then (dict_get data ''items'' (JArr []))
                (\<lambda>its. and_then (py_iter its)
                (\<lambda>items. and_then (search_loop items [])
                (\<lambda>vs. SearchResponse_init vs))))) = Inr resp" and c: "c = calls"
    by (simp_all add: youtube_search_videos_def search_try_def Let_def)
  from body obtain data its items vs where
    r: "r = Inr data" and its: "dict_get data ''items'' (JArr []) = Inr its"
    and items: "py_iter its = Inr items" and loop: "search_loop items [] = Inr vs"
    and resp: "SearchResponse_init vs = Inr resp"
    unfolding reraise_Inr_iff and_then_Inr_iff by blast
  from resp have vs: "videos resp = vs" by (auto simp: SearchResponse_init_def)
  from loop have proj: "map search_item items = map Inr vs"
    by (simp add: search_loop_Inr_iff)
  then have "length (map search_item items) = length (map Inr vs :: (exn + (string \<times> json) list) list)"
    by simp
  then have len: "length vs = length items" by simp
  from m r have first: "fst (make_api_request w ?url ?params) = Inr data" by simp
  from m c have "calls = snd (make_api_request w ?url ?params)" by simp
  then have sent: "calls = [HttpGet ?url (dict_set ?params ''key''
                       (case YOUTUBE_API_KEY w of None \<Rightarrow> JNull | Some k \<Rightarrow> JStr k))]"
    by (simp only: snd_make_api_request)
  have chan: "youtube_list_channel_videos w request = (Inr resp, calls)"
    using assms by (simp add: channel_tool_eq)
  from first its items proj len vs sent chan show ?thesis by blast
qed

lemma five_cats_search:
  "youtube_search_videos (demo_world (Inr five_cats) (Inr rick_fragments))
      \<lparr>query = ''cats'', SearchRequest.max_results = 3\<rparr>
   = (Inr \<lparr>videos = map cat_video [''1'', ''2'', ''3'', ''4'', ''5'']\<rparr>,
      [HttpGet ''https://www.googleapis.com/youtube/v3/search''
         [(''q'', JStr ''cats''), (''part'', JStr ''snippet''), (''type'', JStr ''video''),
          (''maxResults'', JInt 3), (''key'', JStr ''secret'')]])"
  by (simp add: youtube_search_videos_def search_try_def make_api_request_def demo_world_def
        five_cats_def cat_item_def cat_video_def search_item_def SearchResponse_init_def
        YOUTUBE_API_KEY_def Let_def)

theorem search_result_follows_remote_items_witness:
  "youtube_search_videos (demo_world (Inr five_cats) (Inr rick_fragments))
      \<lparr>query = ''cats'', SearchRequest.max_results = 3\<rparr>
   = (Inr \<lparr>videos = map cat_video [''1'', ''2'', ''3'', ''4'', ''5'']\<rparr>,
      [HttpGet ''https://www.googleapis.com/youtube/v3/search''
         [(''q'', JStr ''cats''), (''part'', JStr ''snippet''), (''type'', JStr ''video''),
          (''maxResults'', JInt 3), (''key'', JStr ''secret'')]])
   \<and> youtube_list_channel_videos (demo_world (Inr five_cats) (Inr rick_fragments))
      \<lparr>query = ''cats'', SearchRequest.max_results = 3\<rparr>
   = (Inr \<lparr>videos = map cat_video [''1'', ''2'', ''3'', ''4'', ''5'']\<rparr>,
      [HttpGet ''https://www.googleapis.com/youtube/v3/search''
         [(''q'', JStr ''cats''), (''part'', JStr ''snippet''), (''type'', JStr ''video''),
          (''maxResults'', JInt 3), (''key'', JStr ''secret'')]])"
  using search_result_follows_remote_items [OF five_cats_search] five_cats_search
  by blast

text \<open>
  Claim C2 as stated fails: asked for at most 3 results, the search tool returns all 5
  records of a remote response that holds 5 items.
\<close>

theorem search_returns_more_than_limit:
  "fst (call_youtube_search_videos (demo_world (Inr five_cats) (Inr rick_fragments)) ''cats'' (Some 3))
     = Inr \<lparr>videos = map cat_video [''1'', ''2'', ''3'', ''4'', ''5'']\<rparr>
   \<and> length (videos \<lparr>videos = map cat_video [''1'', ''2'', ''3'', ''4'', ''5'']\<rparr>) = 5
   \<and> \<not> length (videos \<lparr>videos = map cat_video [''1'', ''2'', ''3'', ''4'', ''5'']\<rparr>) \<le> 3"
proof -
  have "SearchRequest_init ''cats'' (Some 3) = Inr \<lparr>query = ''cats'', SearchRequest.max_results = 3\<rparr>"
    by (simp add: SearchRequest_init_def validate_query_def py_strip_def py_isspace_def
          bound_errors_def)
  then show ?thesis
    by (simp add: call_youtube_search_videos_def five_cats_search)
qed

section \<open>The transcript text\<close>

lemma map_exn_Inr: "map f xs = map Inr ys \<Longrightarrow> map_exn f xs = Inr ys"
proof (induction xs arbitrary: ys)
  case Nil
  then show ?case by simp
next
  case (Cons x xs)
  then obtain y ys' where "ys = y # ys'" "f x = Inr y" "map f xs = map Inr ys'"
    by (auto simp: map_eq_Cons_conv)
  with Cons.IH [of ys'] show ?case by simp
qed

lemma join_strs_JStr: "join_strs i (map JStr ts) = Inr ts"
  by (induction ts arbitrary: i) simp_all

lemma py_join_JStr: "py_join sep (map JStr ts) = Inr (str_join sep ts)"
  by (simp add: py_join_def join_strs_JStr)

lemma transcript_try_fragments:
  assumes "get_transcript w vid = Inr (JArr frags)"
    and "map (\<lambda>f. getitem_str f ''text'') frags = map (\<lambda>t. Inr (JStr t)) texts"
  shows "transcript_try w vid = (Inr (str_join '' '' texts), [TranscriptFetch vid])"
proof -
  from assms(2) have "map (\<lambda>f. getitem_str f ''text'') frags = map Inr (map JStr texts)"
    by simp
  then have "map_exn (\<lambda>f. getitem_str f ''text'') frags = Inr (map JStr texts)"
    by (rule map_exn_Inr)
  with assms(1) show ?thesis
    by (simp add: transcript_try_def py_join_JStr)
qed

text \<open>
  Claim C4. When the transcript library returns the list \<open>frags\<close> of caption fragments
  whose \<^verbatim>\<open>text\<close> fields are the strings \<open>texts\<close>, the first block of the transcript tool
  yields those strings joined by single spaces in the library's order; every response
  of the tool carries exactly that transcript, and the tool does return such a response
  as soon as the metadata block delivers a title and a description that are strings or
  \<^verbatim>\<open>None\<close>.
\<close>

theorem transcript_is_space_joined_fragments:
  assumes "get_transcript w (TranscriptRequest.video_id request) = Inr (JArr frags)"
    and "map (\<lambda>f. getitem_str f ''text'') frags = map (\<lambda>t. Inr (JStr t)) texts"
  shows "fst (transcript_try w (TranscriptRequest.video_id request)) = Inr (str_join '' '' texts)
       \<and> (\<forall>resp calls. get_youtube_transcript w request = (Inr resp, calls)
             \<longrightarrow> transcript resp = str_join '' '' texts)
       \<and> (\<forall>t d t' d'. fst (metadata_try w (TranscriptRequest.video_id request)) = Inr (t, d)
             \<and> as_optional_str t = Some t' \<and> as_optional_str d = Some d'
             \<longrightarrow> fst (get_youtube_transcript w request)
                   = Inr \<lparr>transcript = str_join '' '' texts, video_title = t',
                          video_description = d'\<rparr>)"
proof -
  let ?vid = "TranscriptRequest.video_id request"
  note first = transcript_try_fragments [OF assms]
  have a: "fst (transcript_try w ?vid) = Inr (str_join '' '' texts)"
    by (simp add: first)
  have b: "transcript resp = str_join '' '' texts"
    if "get_youtube_transcript w request = (Inr resp, calls)" for resp calls
    using that
    by (cases "metadata_try w ?vid")
       (auto simp: get_youtube_transcript_def first Let_def TranscriptResponse_init_def
             split: sum.splits prod.splits option.splits)
  have c: "fst (get_youtube_transcript w request)
             = Inr \<lparr>transcript = str_join '' '' texts, video_title = t', video_description = d'\<rparr>"
    if "fst (metadata_try w ?vid) = Inr (t, d)" "as_optional_str t = Some t'"
       "as_optional_str d = Some d'" for t d t' d'
    using that
    by (cases "metadata_try w ?vid")
       (simp add: get_youtube_transcript_def first Let_def TranscriptResponse_init_def)
  from a b c show ?thesis by blast
qed

theorem transcript_is_space_joined_fragments_witness:
  "fst (call_get_youtube_transcript (demo_world (Inr rick_videos) (Inr rick_fragments)) ''dQw4w9WgXcQ'')
     = Inr \<lparr>transcript = ''Never gonna give'',
            video_title = Some ''Rick Astley - Never Gonna Give You Up'',
            video_description = Some ''The official video''\<rparr>"
proof -
  let ?w = "demo_world (Inr rick_videos) (Inr rick_fragments)"
  let ?r = "\<lparr>TranscriptRequest.video_id = ''dQw4w9WgXcQ''\<rparr>"
  let ?frags = "[JObj [(''text'', JStr ''Never''), (''start'', JFloat 0 0), (''duration'', JFloat 15 (- 1))],
           JObj [(''text'', JStr ''gonna''), (''start'', JFloat 15 (- 1)), (''duration'', JFloat 1 0)],
           JObj [(''text'', JStr ''give''), (''start'', JFloat 25 (- 1)), (''duration'', JFloat 2 0)]]"
  have i: "TranscriptRequest_init ''dQw4w9WgXcQ'' = Inr ?r"
    by (simp add: TranscriptRequest_init_def validate_video_id_def)
  have f: "get_transcript ?w (TranscriptRequest.video_id ?r) = Inr (JArr ?frags)"
    by (simp add: demo_world_def rick_fragments_def)
  have t: "map (\<lambda>f. getitem_str f ''text'') ?frags
             = map (\<lambda>t. Inr (JStr t)) [''Never'', ''gonna'', ''give'']"
    by simp
  have m: "fst (metadata_try ?w (TranscriptRequest.video_id ?r))
             = Inr (JStr ''Rick Astley - Never Gonna Give You Up'', JStr ''The official video'')"
    by (simp add: metadata_try_def make_api_request_def demo_world_def rick_videos_def
          py_index_def Let_def)
  from transcript_is_space_joined_fragments [OF f t] m
  have "fst (get_youtube_transcript ?w ?r)
          = Inr \<lparr>transcript = str_join '' '' [''Never'', ''gonna'', ''give''],
                 video_title = Some ''Rick Astley - Never Gonna Give You Up'',
                 video_description = Some ''The official video''\<rparr>"
    by simp
  then show ?thesis by (simp add: call_get_youtube_transcript_def i)
qed

section \<open>Video lookups: empty item list, absent item list, echoed identifier\<close>

lemma tool_result:
  "fst (case p of (r, calls) \<Rightarrow> (reraise w r, calls)) = reraise w (fst p)"
  by (cases p) simp

lemma details_try_fst:
  "fst (details_try w request)
   = and_then (fst (make_api_request w ''https://www.googleapis.com/youtube/v3/videos''
                      [(''id'', JStr (VideoDetailsRequest.video_id request)),
                       (''part'', JStr ''snippet'')]))
       (\<lambda>data. and_then (getitem_str data ''items'')
       (\<lambda>items. if \<not> py_truthy items then Inl (ValueError ''Video not found'')
          else and_then (getitem_str data ''items'')
       (\<lambda>items. and_then (getitem_int items 0)
       (\<lambda>first. and_then (getitem_str first ''snippet'')
       (\<lambda>snippet. and_then (getitem_str snippet ''title'')
       (\<lambda>t. and_then (getitem_str snippet ''description'')
       (\<lambda>d. and_then (getitem_str snippet ''publishedAt'')
       (\<lambda>p. VideoDetailsResponse_init (VideoDetailsRequest.video_id request) t d p))))))))"
  by (simp add: details_try_def Let_def split: prod.split)

lemma metadata_try_fst:
  "fst (metadata_try w vid)
   = and_then (fst (make_api_request w ''https://www.googleapis.com/youtube/v3/videos''
                      [(''id'', JStr vid), (''part'', JStr ''snippet'')]))
       (\<lambda>data. and_then (getitem_str data ''items'')
       (\<lambda>items. if \<not> py_truthy items then Inl (ValueError ''Video not found'')
          else and_then (getitem_str data ''items'')
       (\<lambda>items. and_then (getitem_int items 0)
       (\<lambda>first. and_then (getitem_str first ''snippet'')
       (\<lambda>snippet. and_then (getitem_str snippet ''title'')
       (\<lambda>t. and_then (getitem_str snippet ''description'')
       (\<lambda>d. Inr (t, d))))))))"
  by (simp add: metadata_try_def Let_def split: prod.split)

lemma search_try_fst:
  "fst (search_try w request)
   = and_then (fst (make_api_request w ''https://www.googleapis.com/youtube/v3/search''
                      [(''q'', JStr (query request)), (''part'', JStr ''snippet''),
                       (''type'', JStr ''video''),
                       (''maxResults'', JInt (SearchRequest.max_results request))]))
       (\<lambda>data. and_then (dict_get data ''items'' (JArr []))
       (\<lambda>its. and_then (py_iter its)
       (\<lambda>items. and_then (search_loop items [])
       (\<lambda>vs. SearchResponse_init vs))))"
  by (simp add: search_try_def Let_def split: prod.split)

lemma comments_try_fst:
  "fst (comments_try w request)
   = and_then (fst (make_api_request w ''https://www.googleapis.com/youtube/v3/commentThreads''
                      [(''videoId'', JStr (CommentsRequest.video_id request)),
                       (''part'', JStr ''snippet''),
                       (''maxResults'', JInt (CommentsRequest.max_results request))]))
       (\<lambda>data. and_then (dict_get data ''items'' (JArr []))
       (\<lambda>its. and_then (py_iter its)
       (\<lambda>items. and_then (comments_loop items [])
       (\<lambda>cs. CommentsResponse_init cs))))"
  by (simp add: comments_try_def Let_def split: prod.split)

lemma transcript_tool_after_first_block:
  assumes "fst (transcript_try w (TranscriptRequest.video_id treq)) = Inr tr"
    and "reraise w (fst (metadata_try w (TranscriptRequest.video_id treq))) = Inl e"
  shows "fst (get_youtube_transcript w treq) = Inl e"
  using assms
  by (cases "transcript_try w (TranscriptRequest.video_id treq)";
      cases "metadata_try w (TranscriptRequest.video_id treq)")
     (simp add: get_youtube_transcript_def Let_def)

lemma transcript_tool_fails_with_metadata:
  assumes "reraise w (fst (metadata_try w (TranscriptRequest.video_id treq))) = Inl e"
  shows "\<exists>e'. fst (get_youtube_transcript w treq) = Inl e'"
proof (cases "fst (transcript_try w (TranscriptRequest.video_id treq))")
  case (Inl e0)
  then show ?thesis
    by (cases "transcript_try w (TranscriptRequest.video_id treq)")
       (simp add: get_youtube_transcript_def Let_def)
next
  case (Inr tr)
  with assms show ?thesis using transcript_tool_after_first_block by blast
qed

text \<open>
  Claim C7. When the \<^verbatim>\<open>videos\<close> endpoint answers with a body whose \<^verbatim>\<open>items\<close> is the empty
  list, the details tool fails with \<^verbatim>\<open>API Error: Video not found\<close>, and so does the
  metadata block of the transcript tool; the transcript tool then returns no response,
  and its error is that message whenever its first block had succeeded.
\<close>

theorem empty_item_list_is_video_not_found:
  assumes "fst (make_api_request w ''https://www.googleapis.com/youtube/v3/videos''
                  [(''id'', JStr vid), (''part'', JStr ''snippet'')]) = Inr data"
    and "getitem_str data ''items'' = Inr (JArr [])"
  shows "fst (youtube_get_video_details w \<lparr>VideoDetailsRequest.video_id = vid\<rparr>)
           = Inl (ValueError ''API Error: Video not found'')
       \<and> reraise w (fst (metadata_try w vid)) = Inl (ValueError ''API Error: Video not found'')
       \<and> (\<exists>e. fst (get_youtube_transcript w \<lparr>TranscriptRequest.video_id = vid\<rparr>) = Inl e)
       \<and> (\<forall>tr. fst (transcript_try w vid) = Inr tr
             \<longrightarrow> fst (get_youtube_transcript w \<lparr>TranscriptRequest.video_id = vid\<rparr>)
                   = Inl (ValueError ''API Error: Video not found''))"
proof -
  have d: "fst (youtube_get_video_details w \<lparr>VideoDetailsRequest.video_id = vid\<rparr>)
           = Inl (ValueError ''API Error: Video not found'')"
    using assms by (simp add: youtube_get_video_details_def tool_result details_try_fst)
  have m: "reraise w (fst (metadata_try w vid)) = Inl (ValueError ''API Error: Video not found'')"
    using assms by (simp add: metadata_try_fst)
  have t1: "\<exists>e. fst (get_youtube_transcript w \<lparr>TranscriptRequest.video_id = vid\<rparr>) = Inl e"
    using transcript_tool_fails_with_metadata [of w "\<lparr>TranscriptRequest.video_id = vid\<rparr>"] m
    by simp
  have t2: "fst (get_youtube_transcript w \<lparr>TranscriptRequest.video_id = vid\<rparr>)
                   = Inl (ValueError ''API Error: Video not found'')"
    if "fst (transcript_try w vid) = Inr tr" for tr
    using transcript_tool_after_first_block [of w "\<lparr>TranscriptRequest.video_id = vid\<rparr>" tr] m that
    by simp
  from d m t1 t2 show ?thesis by blast
qed

theorem empty_item_list_is_video_not_found_witness:
  "fst (youtube_get_video_details (demo_world (Inr empty_items) (Inr rick_fragments))
          \<lparr>VideoDetailsRequest.video_id = ''dQw4w9WgXcQ''\<rparr>)
     = Inl (ValueError ''API Error: Video not found'')
   \<and> fst (get_youtube_transcript (demo_world (Inr empty_items) (Inr rick_fragments))
          \<lparr>TranscriptRequest.video_id = ''dQw4w9WgXcQ''\<rparr>)
     = Inl (ValueError ''API Error: Video not found'')"
proof -
  let ?w = "demo_world (Inr empty_items) (Inr rick_fragments)"
  have a: "fst (make_api_request ?w ''https://www.googleapis.com/youtube/v3/videos''
                  [(''id'', JStr ''dQw4w9WgXcQ''), (''part'', JStr ''snippet'')])
             = Inr (JObj [(''items'', JArr [])])"
    by (simp add: make_api_request_def demo_world_def empty_items_def Let_def)
  have b: "getitem_str (JObj [(''items'', JArr [])]) ''items'' = Inr (JArr [])"
    by simp
  have c: "fst (transcript_try ?w ''dQw4w9WgXcQ'') = Inr ''Never gonna give''"
    by (simp add: transcript_try_def demo_world_def rick_fragments_def py_join_def)
  from empty_item_list_is_video_not_found [OF a b] c show ?thesis by blast
qed

lemma as_str_Some_iff: "as_str x = Some s \<longleftrightarrow> x = JStr s"
  by (cases x) auto

lemma VideoDetailsResponse_init_Inr:
  assumes "VideoDetailsResponse_init v t d p = Inr resp"
  shows "VideoDetailsResponse.video_id resp = v \<and> t = JStr (title resp)
       \<and> d = JStr (description resp) \<and> p = JStr (published_at resp)"
proof -
  from assms obtain t' d' p' where "as_str t = Some t'" "as_str d = Some d'" "as_str p = Some p'"
    and "resp = \<lparr>VideoDetailsResponse.video_id = v, title = t', description = d',
                  published_at = p'\<rparr>"
    by (auto simp: VideoDetailsResponse_init_def split: option.splits)
  then show ?thesis by (simp add: as_str_Some_iff)
qed

text \<open>
  Claim C9. Every response of the details tool carries the identifier of the request,
  whatever the remote answered, and its title, description and publication date are
  the strings stored under \<^verbatim>\<open>title\<close>, \<^verbatim>\<open>description\<close> and \<^verbatim>\<open>publishedAt\<close> in the snippet of
  the first item of the remote response.
\<close>

theorem details_echo_identifier_and_copy_snippet:
  assumes "youtube_get_video_details w request = (Inr resp, calls)"
  shows "VideoDetailsResponse.video_id resp = VideoDetailsRequest.video_id request
       \<and> (\<exists>data items first snippet.
            fst (make_api_request w ''https://www.googleapis.com/youtube/v3/videos''
                   [(''id'', JStr (VideoDetailsRequest.video_id request)),
                    (''part'', JStr ''snippet'')]) = Inr data
          \<and> getitem_str data ''items'' = Inr items
          \<and> getitem_int items 0 = Inr first
          \<and> getitem_str first ''snippet'' = Inr snippet
          \<and> getitem_str snippet ''title'' = Inr (JStr (title resp))
          \<and> getitem_str snippet ''description'' = Inr (JStr (description resp))
          \<and> getitem_str snippet ''publishedAt'' = Inr (JStr (published_at resp)))"
proof -
  from assms have "reraise w (fst (details_try w request)) = Inr resp"
    by (simp add: youtube_get_video_details_def split: prod.splits)
  then have "fst (details_try w request) = Inr resp"
    by (simp add: reraise_Inr_iff)
  then obtain data items where
    data: "fst (make_api_request w ''https://www.googleapis.com/youtube/v3/videos''
                   [(''id'', JStr (VideoDetailsRequest.video_id request)),
                    (''part'', JStr ''snippet'')]) = Inr data"
    and items: "getitem_str data ''items'' = Inr items"
    and rest: "(if \<not> py_truthy items then Inl (ValueError ''Video not found'')
          else and_then (getitem_str data ''items'')
       (\<lambda>items. and_then (getitem_int items 0)
       (\<lambda>first. and_then (getitem_str first ''snippet'')
       (\<lambda>snippet. and_then (getitem_str snippet ''title'')
       (\<lambda>t. and_then (getitem_str snippet ''description'')
       (\<lambda>d. and_then (getitem_str snippet ''publishedAt'')
       (\<lambda>p. VideoDetailsResponse_init (VideoDetailsRequest.video_id request) t d p))))))) = Inr resp"
    unfolding details_try_fst and_then_Inr_iff by blast
  from rest items obtain first snippet t d p where
    first: "getitem_int items 0 = Inr first"
    and snippet: "getitem_str first ''snippet'' = Inr snippet"
    and t: "getitem_str snippet ''title'' = Inr t"
    and d: "getitem_str snippet ''description'' = Inr d"
    and p: "getitem_str snippet ''publishedAt'' = Inr p"
    and init: "VideoDetailsResponse_init (VideoDetailsRequest.video_id request) t d p = Inr resp"
    by (auto simp: and_then_Inr_iff split: if_splits)
  from VideoDetailsResponse_init_Inr [OF init]
  have "VideoDetailsResponse.video_id resp = VideoDetailsRequest.video_id request"
    and "t = JStr (title resp)" and "d = JStr (description resp)"
    and "p = JStr (published_at resp)"
    by simp_all
  with data items first snippet t d p show ?thesis by blast
qed

theorem details_echo_identifier_and_copy_snippet_witness:
  "youtube_get_video_details (demo_world (Inr rick_videos) (Inr rick_fragments))
      \<lparr>VideoDetailsRequest.video_id = ''zzzzzzzzzzz''\<rparr>
   = (Inr \<lparr>VideoDetailsResponse.video_id = ''zzzzzzzzzzz'',
           title = ''Rick Astley - Never Gonna Give You Up'',
           description = ''The official video'',
           published_at = ''2009-10-25T06:57:33Z''\<rparr>,
      [HttpGet ''https://www.googleapis.com/youtube/v3/videos''
         [(''id'', JStr ''zzzzzzzzzzz''), (''part'', JStr ''snippet''), (''key'', JStr ''secret'')]])
   \<and> VideoDetailsResponse.video_id
        \<lparr>VideoDetailsResponse.video_id = ''zzzzzzzzzzz'',
           title = ''Rick Astley - Never Gonna Give You Up'',
           description = ''The official video'',
           published_at = ''2009-10-25T06:57:33Z''\<rparr>
      = VideoDetailsRequest.video_id \<lparr>VideoDetailsRequest.video_id = ''zzzzzzzzzzz''\<rparr>"
proof -
  have r: "youtube_get_video_details (demo_world (Inr rick_videos) (Inr rick_fragments))
      \<lparr>VideoDetailsRequest.video_id = ''zzzzzzzzzzz''\<rparr>
   = (Inr \<lparr>VideoDetailsResponse.video_id = ''zzzzzzzzzzz'',
           title = ''Rick Astley - Never Gonna Give You Up'',
           description = ''The official video'',
           published_at = ''2009-10-25T06:57:33Z''\<rparr>,
      [HttpGet ''https://www.googleapis.com/youtube/v3/videos''
         [(''id'', JStr ''zzzzzzzzzzz''), (''part'', JStr ''snippet''), (''key'', JStr ''secret'')]])"
    by (simp add: youtube_get_video_details_def details_try_def make_api_request_def
          demo_world_def rick_videos_def py_index_def VideoDetailsResponse_init_def
          YOUTUBE_API_KEY_def Let_def)
  from details_echo_identifier_and_copy_snippet [OF r] r show ?thesis by blast
qed

text \<open>
  Claim C10. When the remote answers with status 200 and a JSON object that has no
  \<^verbatim>\<open>items\<close> key, the search, channel-listing and comments tools (which read the list
  with \<^verbatim>\<open>data.get('items', [])\<close>) succeed with an empty sequence, while the details
  tool and the metadata block of the transcript tool (which read \<^verbatim>\<open>data['items']\<close>) fail
  with the wrapped \<^verbatim>\<open>KeyError\<close>, whose message is \<^verbatim>\<open>API Error: 'items'\<close>.
\<close>

theorem absent_items_key_splits_the_tools:
  assumes "map_of kvs ''items'' = None"
  shows "(fst (make_api_request w ''https://www.googleapis.com/youtube/v3/search''
                 [(''q'', JStr (query sreq)), (''part'', JStr ''snippet''),
                  (''type'', JStr ''video''),
                  (''maxResults'', JInt (SearchRequest.max_results sreq))]) = Inr (JObj kvs)
          \<longrightarrow> fst (youtube_search_videos w sreq) = Inr \<lparr>videos = []\<rparr>
            \<and> fst (youtube_list_channel_videos w sreq) = Inr \<lparr>videos = []\<rparr>)
       \<and> (fst (make_api_request w ''https://www.googleapis.com/youtube/v3/commentThreads''
                 [(''videoId'', JStr (CommentsRequest.video_id creq)),
                  (''part'', JStr ''snippet''),
                  (''maxResults'', JInt (CommentsRequest.max_results creq))]) = Inr (JObj kvs)
          \<longrightarrow> fst (youtube_get_comments w creq) = Inr \<lparr>comments = []\<rparr>)
       \<and> (fst (make_api_request w ''https://www.googleapis.com/youtube/v3/videos''
                 [(''id'', JStr vid), (''part'', JStr ''snippet'')]) = Inr (JObj kvs)
          \<longrightarrow> fst (youtube_get_video_details w \<lparr>VideoDetailsRequest.video_id = vid\<rparr>)
                = Inl (ValueError (''API Error: '' @ py_repr_key ''items''))
            \<and> reraise w (fst (metadata_try w vid))
                = Inl (ValueError (''API Error: '' @ py_repr_key ''items''))
            \<and> (\<exists>e. fst (get_youtube_transcript w \<lparr>TranscriptRequest.video_id = vid\<rparr>) = Inl e)
            \<and> (\<forall>tr. fst (transcript_try w vid) = Inr tr
                  \<longrightarrow> fst (get_youtube_transcript w \<lparr>TranscriptRequest.video_id = vid\<rparr>)
                        = Inl (ValueError (''API Error: '' @ py_repr_key ''items''))))"
proof -
  have s: "fst (youtube_search_videos w sreq) = Inr \<lparr>videos = []\<rparr>"
    if "fst (make_api_request w ''https://www.googleapis.com/youtube/v3/search''
                 [(''q'', JStr (query sreq)), (''part'', JStr ''snippet''),
                  (''type'', JStr ''video''),
                  (''maxResults'', JInt (SearchRequest.max_results sreq))]) = Inr (JObj kvs)"
    using that assms
    by (simp add: youtube_search_videos_def tool_result search_try_fst SearchResponse_init_def)
  have k: "fst (youtube_get_comments w creq) = Inr \<lparr>comments = []\<rparr>"
    if "fst (make_api_request w ''https://www.googleapis.com/youtube/v3/commentThreads''
                 [(''videoId'', JStr (CommentsRequest.video_id creq)),
                  (''part'', JStr ''snippet''),
                  (''maxResults'', JInt (CommentsRequest.max_results creq))]) = Inr (JObj kvs)"
    using that assms
    by (simp add: youtube_get_comments_def tool_result comments_try_fst CommentsResponse_init_def)
  have d: "fst (youtube_get_video_details w \<lparr>VideoDetailsRequest.video_id = vid\<rparr>)
                = Inl (ValueError (''API Error: '' @ py_repr_key ''items''))"
    and m: "reraise w (fst (metadata_try w vid))
                = Inl (ValueError (''API Error: '' @ py_repr_key ''items''))"
    if "fst (make_api_request w ''https://www.googleapis.com/youtube/v3/videos''
                 [(''id'', JStr vid), (''part'', JStr ''snippet'')]) = Inr (JObj kvs)"
    using that assms
    by (simp_all add: youtube_get_video_details_def tool_result details_try_fst metadata_try_fst)
  have t1: "\<exists>e. fst (get_youtube_transcript w \<lparr>TranscriptRequest.video_id = vid\<rparr>) = Inl e"
    if "fst (make_api_request w ''https://www.googleapis.com/youtube/v3/videos''
                 [(''id'', JStr vid), (''part'', JStr ''snippet'')]) = Inr (JObj kvs)"
    using transcript_tool_fails_with_metadata [of w "\<lparr>TranscriptRequest.video_id = vid\<rparr>"] m [OF that]
    by simp
  have t2: "fst (get_youtube_transcript w \<lparr>TranscriptRequest.video_id = vid\<rparr>)
                        = Inl (ValueError (''API Error: '' @ py_repr_key ''items''))"
    if "fst (make_api_request w ''https://www.googleapis.com/youtube/v3/videos''
                 [(''id'', JStr vid), (''part'', JStr ''snippet'')]) = Inr (JObj kvs)"
      and "fst (transcript_try w vid) = Inr tr" for tr
    using transcript_tool_after_first_block [of w "\<lparr>TranscriptRequest.video_id = vid\<rparr>" tr]
      m [OF that(1)] that(2)
    by simp
  from s k d m t1 t2 show ?thesis by (simp add: channel_tool_eq)
qed

theorem absent_items_key_splits_the_tools_witness:
  "fst (youtube_search_videos (demo_world (Inr no_items) (Inr rick_fragments))
          \<lparr>query = ''cats'', SearchRequest.max_results = 3\<rparr>) = Inr \<lparr>videos = []\<rparr>
   \<and> fst (youtube_list_channel_videos (demo_world (Inr no_items) (Inr rick_fragments))
          \<lparr>query = ''cats'', SearchRequest.max_results = 3\<rparr>) = Inr \<lparr>videos = []\<rparr>
   \<and> fst (youtube_get_comments (demo_world (Inr no_items) (Inr rick_fragments))
          \<lparr>CommentsRequest.video_id = ''dQw4w9WgXcQ'', CommentsRequest.max_results = 20\<rparr>)
       = Inr \<lparr>comments = []\<rparr>
   \<and> fst (youtube_get_video_details (demo_world (Inr no_items) (Inr rick_fragments))
          \<lparr>VideoDetailsRequest.video_id = ''dQw4w9WgXcQ''\<rparr>)
       = Inl (ValueError (''API Error: '' @ [CHR 0x27] @ ''items'' @ [CHR 0x27]))
   \<and> fst (get_youtube_transcript (demo_world (Inr no_items) (Inr rick_fragments))
          \<lparr>TranscriptRequest.video_id = ''dQw4w9WgXcQ''\<rparr>)
       = Inl (ValueError (''API Error: '' @ [CHR 0x27] @ ''items'' @ [CHR 0x27]))"
proof -
  let ?w = "demo_world (Inr no_items) (Inr rick_fragments)"
  let ?kvs = "[(''kind'', JStr ''youtube#listResponse'')]"
  have any: "fst (make_api_request ?w url params) = Inr (JObj ?kvs)" for url params
    by (simp add: make_api_request_def demo_world_def no_items_def Let_def)
  have none: "map_of ?kvs ''items'' = None"
    by simp
  have c: "fst (transcript_try ?w ''dQw4w9WgXcQ'') = Inr ''Never gonna give''"
    by (simp add: transcript_try_def demo_world_def rick_fragments_def py_join_def)
  from absent_items_key_splits_the_tools
    [OF none, of ?w "\<lparr>query = ''cats'', SearchRequest.max_results = 3\<rparr>"
       "\<lparr>CommentsRequest.video_id = ''dQw4w9WgXcQ'', CommentsRequest.max_results = 20\<rparr>"
       "''dQw4w9WgXcQ''"] any c
  show ?thesis by (simp add: py_repr_key_def)
qed

end
